theory Spec2Isabelle
  imports Complex_Main
begin

section \<open>Data model\<close>

text \<open>
  The exported conversations are JSON dictionaries.  The embedding keeps the fields the
  analysis reads.  A dictionary whose iteration order the code depends on (the node
  mapping, the cost table) is an association list in insertion order, looked up with
  \<open>map_of\<close>.  A key that is missing, or present with a falsy value where the code only
  tests truthiness, is \<open>None\<close> (or the empty string for the thought fields, whose
  \<open>.get\<close> default is the empty string).

  Python numbers: token counts are integers until a thought's content is weighted by the
  multiplier, which makes them floats; rates and costs are floats.  All of them are
  exact rationals here, so rounding of the floating-point operations is not part of the
  model.
\<close>

record thought =
  summary :: string
  thought_content :: string

datatype content_block =
    Text "string option list"
  | Thoughts "thought list"
  | User_editable_context string string
  | Other_content

text \<open>
  \<open>Text parts\<close>: an entry of \<open>parts\<close> that is not a string is \<open>None\<close>.
  \<open>User_editable_context user_profile user_instructions\<close>.
  \<open>Other_content\<close>: any other \<open>content_type\<close>, or no content at all.
\<close>

record message =
  author_role :: "string option"
  content :: content_block
  model_slug :: "string option"
  default_model_slug :: "string option"
  has_finish_details :: bool
  recipient :: "string option"
  end_turn :: bool

text \<open>\<open>end_turn m\<close> is the test \<open>message.get("end_turn") is True\<close>.\<close>

record node =
  parent :: "string option"
  children :: "string list"
  message :: "message option"

type_synonym node_mapping = "(string \<times> node) list"

record conversation =
  title :: "string option"
  create_time :: "rat option"
  update_time :: "rat option"
  conv_mapping :: "node_mapping option"

text \<open>\<open>conv_mapping\<close> is the key \<open>mapping\<close>; \<open>None\<close> when the key is missing.\<close>

section \<open>config.py\<close>

text \<open>
  An entry of the cost table is a dictionary; the two keys the code reads are optional
  fields.  An entry with neither key stands for the empty dictionary, which Python
  treats as falsy.
\<close>

record model_rates =
  input_cost_per_million_tokens :: "rat option"
  output_cost_per_million_tokens :: "rat option"

type_synonym costs_config = "(string \<times> model_rates) list"

definition rates :: "rat \<Rightarrow> rat \<Rightarrow> model_rates" where
  "rates i out = \<lparr>input_cost_per_million_tokens = Some i, output_cost_per_million_tokens = Some out\<rparr>"

definition DEFAULT_MODEL_COSTS :: costs_config where
  "DEFAULT_MODEL_COSTS =
     [(''gpt-4o'', rates (5 / 2) 10),
      (''research'', rates 10 40),
      (''o3'', rates 10 40),
      (''o1-pro'', rates 150 600),
      (''gpt-4-5'', rates 75 150),
      (''o1'', rates 15 60),
      (''o1-preview'', rates 15 60)]"

definition THOUGHT_CONTENT_MULTIPLIER :: rat where
  "THOUGHT_CONTENT_MULTIPLIER = 12 / 10"

section \<open>tokenizers.py\<close>

text \<open>
  The tokenizer library is external.  A tokenizer is the function from a text to the
  length of its encoding, \<open>None\<close> where \<open>encode\<close> raises \<open>ValueError\<close>;
  \<open>get_tokenizer\<close>, from a model slug to a tokenizer, is a parameter \<open>gt\<close> of
  everything that counts tokens.
\<close>

type_synonym tokenizer = "string \<Rightarrow> nat option"

definition count_tokens :: "string \<Rightarrow> tokenizer \<Rightarrow> nat" where
  "count_tokens text tokenizer =
     (if text = [] then 0
      else case tokenizer text of Some n \<Rightarrow> n | None \<Rightarrow> 0)"

definition thought_step :: "tokenizer \<Rightarrow> string list \<times> rat \<Rightarrow> thought \<Rightarrow> string list \<times> rat" where
  "thought_step tokenizer acc th =
     (let summary_label = summary th;
          thought_content_text = thought_content th;
          acc1 = (if summary_label \<noteq> []
                  then (fst acc @ [''[Thought Label]: '' @ summary_label],
                        snd acc + of_nat (count_tokens summary_label tokenizer))
                  else acc)
      in if thought_content_text \<noteq> []
         then (fst acc1 @ [''[Thought Content (x1.2)]: '' @ thought_content_text],
               snd acc1 + of_nat (count_tokens thought_content_text tokenizer) * THOUGHT_CONTENT_MULTIPLIER)
         else acc1)"

fun thoughts_loop :: "tokenizer \<Rightarrow> string list \<times> rat \<Rightarrow> thought list \<Rightarrow> string list \<times> rat" where
  "thoughts_loop tokenizer acc [] = acc"
| "thoughts_loop tokenizer acc (th # ths) = thoughts_loop tokenizer (thought_step tokenizer acc th) ths"

definition extract_text_from_message ::
  "(string option \<Rightarrow> tokenizer) \<Rightarrow> node \<Rightarrow> bool \<Rightarrow> string list \<times> rat" where
  "extract_text_from_message gt message_data count_thoughts =
     (case message message_data of
        None \<Rightarrow> ([], 0)
      | Some msg \<Rightarrow>
          (let tokenizer = gt (model_slug msg) in
           case content msg of
             Text parts \<Rightarrow>
               (if parts \<noteq> []
                then (let full_text = concat (map (\<lambda>p. case p of Some s \<Rightarrow> s | None \<Rightarrow> []) parts)
                      in ([full_text], of_nat (count_tokens full_text tokenizer)))
                else ([], 0))
           | Thoughts thoughts \<Rightarrow>
               (if count_thoughts then thoughts_loop tokenizer ([], 0) thoughts else ([], 0))
           | User_editable_context user_profile user_instructions \<Rightarrow>
               (let acc1 = (if user_profile \<noteq> []
                            then ([''[User Profile]: '' @ user_profile],
                                  of_nat (count_tokens user_profile tokenizer))
                            else ([], 0))
                in if user_instructions \<noteq> []
                   then (fst acc1 @ [''[User Instructions]: '' @ user_instructions],
                         snd acc1 + of_nat (count_tokens user_instructions tokenizer))
                   else acc1)
           | Other_content \<Rightarrow> ([], 0)))"

section \<open>message_ordering.py\<close>

definition has_message :: "node_mapping \<Rightarrow> string \<Rightarrow> bool" where
  "has_message conversation_mapping i =
     (case map_of conversation_mapping i of
        None \<Rightarrow> False
      | Some nd \<Rightarrow> message nd \<noteq> None)"

definition children_of :: "node_mapping \<Rightarrow> string \<Rightarrow> string list" where
  "children_of conversation_mapping i =
     (case map_of conversation_mapping i of None \<Rightarrow> [] | Some nd \<Rightarrow> children nd)"

definition looks_like_guid :: "string \<Rightarrow> bool" where
  "looks_like_guid r = (length r = 36 \<and> count_list r (CHR ''-'') = 4)"

text \<open>
  The root.  \<open>possible_roots\<close> is built from a Python set, whose iteration order is not
  specified: \<open>set_order\<close> is the order in which the set is listed, a parameter.
\<close>

definition find_root :: "(string list \<Rightarrow> string list) \<Rightarrow> node_mapping \<Rightarrow> string option" where
  "find_root set_order conversation_mapping =
     (if ''client-created-root'' \<in> set (map fst conversation_mapping) then Some ''client-created-root''
      else
        (let all_ids = map fst conversation_mapping;
             child_ids_with_valid_parents =
               map fst (filter (\<lambda>(msg_id, msg_data).
                          case parent msg_data of
                            None \<Rightarrow> False
                          | Some parent_id \<Rightarrow> parent_id \<noteq> [] \<and> parent_id \<in> set all_ids)
                        conversation_mapping);
             possible_roots = set_order (filter (\<lambda>i. i \<notin> set child_ids_with_valid_parents) (remdups all_ids));
             non_guid_roots = filter (\<lambda>r. \<not> looks_like_guid r) possible_roots
         in if possible_roots = [] then None
            else if non_guid_roots \<noteq> [] then Some (hd non_guid_roots)
            else Some (hd possible_roots)))"

text \<open>
  The \<open>while current_id\<close> loop.  It is a partial function: \<open>None\<close> is the loop that
  never ends.  \<open>current_id\<close> is falsy when it is the empty string.
\<close>

partial_function (option) follow_first_child ::
  "node_mapping \<Rightarrow> string \<Rightarrow> string set \<Rightarrow> string list \<Rightarrow> string list option" where
  "follow_first_child conversation_mapping current_id visited_ids ordered_message_ids =
     (if current_id = [] then Some ordered_message_ids
      else case map_of conversation_mapping current_id of
        None \<Rightarrow> Some ordered_message_ids
      | Some msg_node \<Rightarrow>
          (case children msg_node of
             [] \<Rightarrow> Some ordered_message_ids
           | next_id # _ \<Rightarrow>
               if next_id \<in> visited_ids then Some ordered_message_ids
               else follow_first_child conversation_mapping next_id (insert next_id visited_ids)
                      (if has_message conversation_mapping next_id
                       then ordered_message_ids @ [next_id] else ordered_message_ids)))"

text \<open>
  The start of the walk, from the root: the node the loop starts at and the sequence so
  far, or \<open>None\<close> where the function returns the empty sequence at once.
\<close>

definition walk_start :: "node_mapping \<Rightarrow> string \<Rightarrow> (string \<times> string list) option" where
  "walk_start conversation_mapping root_id =
     (let current_id = (if root_id = ''client-created-root'' \<and> children_of conversation_mapping root_id \<noteq> []
                        then hd (children_of conversation_mapping root_id) else root_id)
      in if root_id = ''client-created-root''
         then (let children_of_root = children_of conversation_mapping root_id
               in if children_of_root = [] then None else Some (hd children_of_root, []))
         else Some (current_id,
                    if has_message conversation_mapping current_id then [current_id] else []))"

definition get_message_chronological_order ::
  "(string list \<Rightarrow> string list) \<Rightarrow> node_mapping \<Rightarrow> string list option" where
  "get_message_chronological_order set_order conversation_mapping =
     (if conversation_mapping = [] then Some []
      else case find_root set_order conversation_mapping of
        None \<Rightarrow> Some []
      | Some root_id \<Rightarrow>
          (case walk_start conversation_mapping root_id of
             None \<Rightarrow> Some []
           | Some (current_id, ordered_message_ids) \<Rightarrow>
               if current_id \<notin> set ordered_message_ids \<and> has_message conversation_mapping current_id
               then follow_first_child conversation_mapping current_id {current_id}
                      (ordered_message_ids @ [current_id])
               else follow_first_child conversation_mapping current_id {} ordered_message_ids))"

section \<open>analyzers.py\<close>

definition truthy :: "string option \<Rightarrow> bool" where
  "truthy s = (case s of None \<Rightarrow> False | Some t \<Rightarrow> t \<noteq> [])"

definition identify_model_from_metadata :: "message \<Rightarrow> string" where
  "identify_model_from_metadata msg =
     (if truthy (model_slug msg) then the (model_slug msg)
      else if truthy (default_model_slug msg) then the (default_model_slug msg) @ '' (default)''
      else if has_finish_details msg then ''Unknown API Model''
      else if truthy (recipient msg) \<and> recipient msg \<noteq> Some ''all''
           then ''Tool: '' @ the (recipient msg)
      else ''N/A'')"

definition get_role :: "message \<Rightarrow> string" where
  "get_role msg = (case author_role msg of None \<Rightarrow> ''unknown'' | Some r \<Rightarrow> r)"

definition count_real_turns :: "node_mapping \<Rightarrow> string list \<Rightarrow> nat" where
  "count_real_turns mapping ordered_message_ids =
     foldl (\<lambda>turn_count msg_id.
              case map_of mapping msg_id of
                None \<Rightarrow> turn_count
              | Some msg_data \<Rightarrow>
                  (case message msg_data of
                     None \<Rightarrow> turn_count
                   | Some msg \<Rightarrow> if end_turn msg then turn_count + 1 else turn_count))
           0 ordered_message_ids"

subsection \<open>The results\<close>

text \<open>
  A result is a dictionary; which keys it has depends on the branch that built it.
  The three shapes are three constructors, and the key \<open>error\<close> is present exactly in
  the first.
\<close>

record result_base =
  result_title :: string
  create_time_ts :: "rat option"
  update_time_ts :: "rat option"
  mode :: string

record error_result = result_base +
  error :: string

record counted_result = result_base +
  real_turns_count :: nat
  message_count :: nat

record simple_result = counted_result +
  simple_total_user_tokens :: rat
  simple_total_assistant_tokens :: rat
  simple_total_system_tokens :: rat
  simple_total_input_tokens :: rat
  simple_total_output_tokens :: rat
  simple_input_cost :: rat
  simple_output_cost :: rat
  simple_total_cost :: rat
  simple_cost_model_key :: string

record turn_record =
  assistant_message_id :: string
  turn_index :: nat
  input_tokens :: rat
  output_tokens :: rat
  input_cost :: rat
  output_cost :: rat
  turn_total_cost :: rat
  turn_model_slug :: string
  input_discounted :: bool
  is_turn_end :: bool

record detailed_result = counted_result +
  total_input_tokens_across_turns :: rat
  total_output_tokens_for_all_assistant_msgs :: rat
  total_cost :: rat
  assistant_messages_count :: nat
  turns_details :: "turn_record list"

datatype analysis_result =
    Error_result error_result
  | Simple_result simple_result
  | Detailed_result detailed_result

datatype py_error = KeyError string

subsection \<open>Simple mode\<close>

record simple_state =
  simple_user_tokens :: rat
  simple_assistant_tokens :: rat
  simple_system_tokens :: rat

definition simple_step ::
  "(string option \<Rightarrow> tokenizer) \<Rightarrow> node_mapping \<Rightarrow> simple_state \<Rightarrow> string \<Rightarrow> simple_state" where
  "simple_step gt mapping st msg_id =
     (case map_of mapping msg_id of
        None \<Rightarrow> st
      | Some msg_data \<Rightarrow>
          (case message msg_data of
             None \<Rightarrow> st
           | Some msg \<Rightarrow>
               (let author_role = get_role msg in
                if author_role = ''user''
                then st\<lparr>simple_user_tokens :=
                          simple_user_tokens st + snd (extract_text_from_message gt msg_data False)\<rparr>
                else if author_role = ''assistant''
                then st\<lparr>simple_assistant_tokens :=
                          simple_assistant_tokens st + snd (extract_text_from_message gt msg_data True)\<rparr>
                else if author_role = ''system''
                then st\<lparr>simple_system_tokens :=
                          simple_system_tokens st + snd (extract_text_from_message gt msg_data False)\<rparr>
                else st)))"

definition rates_truthy :: "model_rates option \<Rightarrow> bool" where
  "rates_truthy r =
     (case r of
        None \<Rightarrow> False
      | Some x \<Rightarrow> input_cost_per_million_tokens x \<noteq> None \<or> output_cost_per_million_tokens x \<noteq> None)"

text \<open>The rates of simple mode: the key tried last and the rates found under it.\<close>

definition simple_calc_model_rates :: "costs_config \<Rightarrow> string \<times> model_rates option" where
  "simple_calc_model_rates costs_config =
     (let cost_model_key_for_simple = ''o3'';
          found = map_of costs_config cost_model_key_for_simple
      in if \<not> rates_truthy found
         then (let (key1, found1) =
                     (if costs_config \<noteq> []
                      then (fst (hd costs_config), map_of costs_config (fst (hd costs_config)))
                      else (cost_model_key_for_simple, found))
               in if \<not> rates_truthy found1
                  then (''o3'', map_of DEFAULT_MODEL_COSTS ''o3'')
                  else (key1, found1))
         else (cost_model_key_for_simple, found))"

definition simple_mode ::
  "(string option \<Rightarrow> tokenizer) \<Rightarrow> result_base \<Rightarrow> node_mapping \<Rightarrow> costs_config \<Rightarrow> string list
     \<Rightarrow> nat \<Rightarrow> simple_result" where
  "simple_mode gt base mapping costs_config ordered_message_ids turns =
     (let st = foldl (simple_step gt mapping)
                 \<lparr>simple_user_tokens = 0, simple_assistant_tokens = 0, simple_system_tokens = 0\<rparr>
                 ordered_message_ids;
          simple_total_input_tokens_val = simple_user_tokens st + simple_system_tokens st;
          simple_total_output_tokens_val = simple_assistant_tokens st;
          (cost_model_key_for_simple, found) = simple_calc_model_rates costs_config;
          (in_cost, out_cost, total_val, key) =
            (case found of
               Some r \<Rightarrow>
                 (case (input_cost_per_million_tokens r, output_cost_per_million_tokens r) of
                    (Some in_rate, Some out_rate) \<Rightarrow>
                      (let ic = (simple_total_input_tokens_val / 1000000) * in_rate;
                           oc = (simple_total_output_tokens_val / 1000000) * out_rate
                       in (ic, oc, ic + oc, cost_model_key_for_simple))
                  | _ \<Rightarrow> (0, 0, 0, cost_model_key_for_simple @ '' (rates not found/incomplete)''))
             | None \<Rightarrow> (0, 0, 0, cost_model_key_for_simple @ '' (rates not found/incomplete)''))
      in \<lparr>result_title = result_title base, create_time_ts = create_time_ts base,
           update_time_ts = update_time_ts base, mode = ''simple'',
           real_turns_count = turns, message_count = length ordered_message_ids,
           simple_total_user_tokens = simple_user_tokens st,
           simple_total_assistant_tokens = simple_assistant_tokens st,
           simple_total_system_tokens = simple_system_tokens st,
           simple_total_input_tokens = simple_total_input_tokens_val,
           simple_total_output_tokens = simple_total_output_tokens_val,
           simple_input_cost = in_cost, simple_output_cost = out_cost,
           simple_total_cost = total_val, simple_cost_model_key = key\<rparr>)"

subsection \<open>Detailed mode\<close>

text \<open>
  The rates of a message: its own slug, else \<open>o3\<close>; where that is falsy the first value
  of the table, or \<open>DEFAULT_MODEL_COSTS["o3"]\<close>, a key of that constant, when the table is
  empty.

  The list \<open>turn_boundaries\<close> and the list \<open>current_turn_messages\<close> of the source are
  built and never read; they are left out.
\<close>

definition current_model_costs :: "costs_config \<Rightarrow> string option \<Rightarrow> model_rates" where
  "current_model_costs costs_config slug =
     (let found = (case (case slug of None \<Rightarrow> None | Some s \<Rightarrow> map_of costs_config s) of
                     Some r \<Rightarrow> Some r
                   | None \<Rightarrow> map_of costs_config ''o3'')
      in if \<not> rates_truthy found
         then (if costs_config \<noteq> [] then snd (hd costs_config)
               else the (map_of DEFAULT_MODEL_COSTS ''o3''))
         else the found)"

record detailed_state =
  history_for_inputs :: "(string \<times> string \<times> rat) list"
  current_turn_index :: nat
  processed_turns :: "turn_record list"
  assistant_message_count_in_convo :: nat
  conversation_total_input_tokens :: rat
  conversation_total_output_tokens :: rat
  conversation_total_cost :: rat

definition initial_state :: detailed_state where
  "initial_state =
     \<lparr>history_for_inputs = [], current_turn_index = 0, processed_turns = [],
      assistant_message_count_in_convo = 0, conversation_total_input_tokens = 0,
      conversation_total_output_tokens = 0, conversation_total_cost = 0\<rparr>"

text \<open>
  Reading a rate with \<open>current_model_costs[key]\<close> raises \<open>KeyError\<close> when the key is
  missing.
\<close>

definition subscript :: "rat option \<Rightarrow> string \<Rightarrow> py_error + rat" where
  "subscript v key = (case v of None \<Rightarrow> Inl (KeyError key) | Some x \<Rightarrow> Inr x)"

definition assistant_costs ::
  "model_rates \<Rightarrow> message \<Rightarrow> string \<Rightarrow> rat \<Rightarrow> detailed_state \<Rightarrow> py_error + detailed_state" where
  "assistant_costs model_costs msg msg_id current_message_output_tokens st =
     (let output_tokens = current_message_output_tokens in
      case subscript (output_cost_per_million_tokens model_costs) ''output_cost_per_million_tokens'' of
        Inl e \<Rightarrow> Inl e
      | Inr output_rate \<Rightarrow>
          (let output_cost = (output_tokens / 1000000) * output_rate;
               input_tokens_for_this_msg =
                 sum_list (map (\<lambda>(_, _, tok_count). tok_count) (butlast (history_for_inputs st)))
           in case subscript (input_cost_per_million_tokens model_costs) ''input_cost_per_million_tokens'' of
                Inl e \<Rightarrow> Inl e
              | Inr rate \<Rightarrow>
                  (let input_cost_rate = (if current_turn_index st > 0 then rate / 2 else rate);
                       input_cost = (input_tokens_for_this_msg / 1000000) * input_cost_rate;
                       msg_cost = input_cost + output_cost
                   in Inr (st\<lparr>conversation_total_output_tokens :=
                                  conversation_total_output_tokens st + output_tokens,
                                processed_turns := processed_turns st @
                                  [\<lparr>assistant_message_id = msg_id,
                                    turn_index = current_turn_index st,
                                    input_tokens = input_tokens_for_this_msg,
                                    output_tokens = output_tokens,
                                    input_cost = input_cost,
                                    output_cost = output_cost,
                                    turn_total_cost = msg_cost,
                                    turn_model_slug = identify_model_from_metadata msg,
                                    input_discounted = (current_turn_index st > 0),
                                    is_turn_end = end_turn msg\<rparr>],
                                conversation_total_cost := conversation_total_cost st + msg_cost,
                                conversation_total_input_tokens :=
                                  conversation_total_input_tokens st + input_tokens_for_this_msg\<rparr>))))"

definition detailed_step ::
  "(string option \<Rightarrow> tokenizer) \<Rightarrow> node_mapping \<Rightarrow> costs_config \<Rightarrow> detailed_state \<Rightarrow> string
     \<Rightarrow> py_error + detailed_state" where
  "detailed_step gt mapping costs_config st msg_id =
     (case map_of mapping msg_id of
        None \<Rightarrow> Inr st
      | Some msg_data \<Rightarrow>
          (case message msg_data of
             None \<Rightarrow> Inr st
           | Some msg \<Rightarrow>
               (let author_role = get_role msg;
                    model_costs = current_model_costs costs_config (model_slug msg);
                    current_message_output_tokens = snd (extract_text_from_message gt msg_data True);
                    current_message_tokens_for_history = snd (extract_text_from_message gt msg_data False);
                    st1 = st\<lparr>history_for_inputs := history_for_inputs st @
                                [(msg_id, author_role, current_message_tokens_for_history)]\<rparr>;
                    st2 = (if author_role = ''assistant''
                           then st1\<lparr>assistant_message_count_in_convo :=
                                       assistant_message_count_in_convo st1 + 1\<rparr>
                           else st1);
                    is_turn_end = end_turn msg
                in case (if author_role = ''assistant''
                         then assistant_costs model_costs msg msg_id current_message_output_tokens st2
                         else Inr st2) of
                     Inl e \<Rightarrow> Inl e
                   | Inr st3 \<Rightarrow>
                       Inr (if is_turn_end
                            then st3\<lparr>current_turn_index := current_turn_index st3 + 1\<rparr>
                            else st3))))"

fun detailed_loop ::
  "(string option \<Rightarrow> tokenizer) \<Rightarrow> node_mapping \<Rightarrow> costs_config \<Rightarrow> detailed_state \<Rightarrow> string list
     \<Rightarrow> py_error + detailed_state" where
  "detailed_loop gt mapping costs_config st [] = Inr st"
| "detailed_loop gt mapping costs_config st (msg_id # ids) =
     (case detailed_step gt mapping costs_config st msg_id of
        Inl e \<Rightarrow> Inl e
      | Inr st' \<Rightarrow> detailed_loop gt mapping costs_config st' ids)"

definition detailed_mode ::
  "result_base \<Rightarrow> string list \<Rightarrow> nat \<Rightarrow> detailed_state \<Rightarrow> detailed_result" where
  "detailed_mode base ordered_message_ids turns st =
     \<lparr>result_title = result_title base, create_time_ts = create_time_ts base,
      update_time_ts = update_time_ts base, mode = ''detailed'',
      real_turns_count = turns, message_count = length ordered_message_ids,
      total_input_tokens_across_turns = conversation_total_input_tokens st,
      total_output_tokens_for_all_assistant_msgs = conversation_total_output_tokens st,
      total_cost = conversation_total_cost st,
      assistant_messages_count = assistant_message_count_in_convo st,
      turns_details = processed_turns st\<rparr>"

subsection \<open>The analysis of one conversation\<close>

text \<open>
  The value is \<open>None\<close> when the call does not return, \<open>Some (Inl e)\<close> when it raises
  \<open>e\<close>, \<open>Some (Inr r)\<close> when it returns the result \<open>r\<close>.
\<close>

definition analyze_conversation_tokens_and_costs ::
  "(string option \<Rightarrow> tokenizer) \<Rightarrow> (string list \<Rightarrow> string list) \<Rightarrow> conversation \<Rightarrow> costs_config
     \<Rightarrow> string \<Rightarrow> (py_error + analysis_result) option" where
  "analyze_conversation_tokens_and_costs gt set_order conv costs_config md =
     (let base = \<lparr>result_title = (case title conv of None \<Rightarrow> ''N/A'' | Some t \<Rightarrow> t),
                  create_time_ts = create_time conv, update_time_ts = update_time conv, mode = md\<rparr>;
          no_mapping = Some (Inr (Error_result (result_base.extend base
                          \<lparr>error = ''No message mapping found''\<rparr>)))
      in case conv_mapping conv of
           None \<Rightarrow> no_mapping
         | Some m \<Rightarrow>
             if m = [] then no_mapping
             else
               (case get_message_chronological_order set_order m of
                  None \<Rightarrow> None
                | Some ordered_message_ids \<Rightarrow>
                    if ordered_message_ids = []
                    then Some (Inr (Error_result (result_base.extend base
                           \<lparr>error = ''Could not determine message order or no messages''\<rparr>)))
                    else
                      (let turns = count_real_turns m ordered_message_ids in
                       if md = ''simple''
                       then Some (Inr (Simple_result
                              (simple_mode gt base m costs_config ordered_message_ids turns)))
                       else
                         (case detailed_loop gt m costs_config initial_state ordered_message_ids of
                            Inl e \<Rightarrow> Some (Inl e)
                          | Inr st \<Rightarrow>
                              Some (Inr (Detailed_result
                                (detailed_mode base ordered_message_ids turns st)))))))"

section \<open>reporting.py: the summary of generate\_comprehensive\_report\<close>

text \<open>
  The report reads a result through \<open>result.get(key, 0)\<close>.  \<open>numeric_field\<close> is the
  result as the dictionary of its numeric keys.
\<close>

fun numeric_field :: "analysis_result \<Rightarrow> string \<Rightarrow> rat option" where
  "numeric_field (Error_result e) = map_of []"
| "numeric_field (Simple_result r) =
     map_of [(''real_turns_count'', of_nat (real_turns_count r)),
             (''message_count'', of_nat (message_count r)),
             (''simple_total_user_tokens'', simple_total_user_tokens r),
             (''simple_total_assistant_tokens'', simple_total_assistant_tokens r),
             (''simple_total_system_tokens'', simple_total_system_tokens r),
             (''simple_total_input_tokens'', simple_total_input_tokens r),
             (''simple_total_output_tokens'', simple_total_output_tokens r),
             (''simple_input_cost'', simple_input_cost r),
             (''simple_output_cost'', simple_output_cost r),
             (''simple_total_cost'', simple_total_cost r)]"
| "numeric_field (Detailed_result r) =
     map_of [(''real_turns_count'', of_nat (real_turns_count r)),
             (''message_count'', of_nat (message_count r)),
             (''total_input_tokens_across_turns'', total_input_tokens_across_turns r),
             (''total_output_tokens_for_all_assistant_msgs'', total_output_tokens_for_all_assistant_msgs r),
             (''total_cost'', total_cost r),
             (''assistant_messages_count'', of_nat (assistant_messages_count r))]"

definition get_or :: "analysis_result \<Rightarrow> string \<Rightarrow> rat \<Rightarrow> rat" where
  "get_or result key dflt = (case numeric_field result key of None \<Rightarrow> dflt | Some v \<Rightarrow> v)"

definition has_error :: "analysis_result \<Rightarrow> bool" where
  "has_error result = (case result of Error_result _ \<Rightarrow> True | _ \<Rightarrow> False)"

definition error_conversations :: "analysis_result list \<Rightarrow> analysis_result list" where
  "error_conversations all_analysis_results = filter has_error all_analysis_results"

definition valid_results :: "analysis_result list \<Rightarrow> analysis_result list" where
  "valid_results all_analysis_results = filter (\<lambda>result. \<not> has_error result) all_analysis_results"

definition total_of :: "string \<Rightarrow> analysis_result list \<Rightarrow> rat" where
  "total_of key results = sum_list (map (\<lambda>result. get_or result key 0) results)"

definition average :: "rat \<Rightarrow> analysis_result list \<Rightarrow> rat" where
  "average amount results = (if results \<noteq> [] then amount / of_nat (length results) else 0)"

definition report_summary :: "string \<Rightarrow> analysis_result list \<Rightarrow> (string \<times> rat) list" where
  "report_summary current_calculation_mode all_analysis_results =
     (let valid = valid_results all_analysis_results in
      if current_calculation_mode = ''detailed''
      then (let total_input_tokens = total_of ''total_input_tokens_across_turns'' valid;
                total_output_tokens = total_of ''total_output_tokens_for_all_assistant_msgs'' valid;
                total_cost_sum = total_of ''total_cost'' valid;
                total_turns = sum_list (map (\<lambda>result. get_or result ''real_turns_count''
                                (get_or result ''assistant_messages_count'' 0)) valid);
                total_assistant_messages = total_of ''assistant_messages_count'' valid
            in [(''total_input_tokens'', total_input_tokens),
                (''total_output_tokens'', total_output_tokens),
                (''total_tokens'', total_input_tokens + total_output_tokens),
                (''total_cost'', total_cost_sum),
                (''total_turns'', total_turns),
                (''total_assistant_messages'', total_assistant_messages),
                (''avg_tokens_per_conversation'', average (total_input_tokens + total_output_tokens) valid),
                (''avg_cost_per_conversation'', average total_cost_sum valid),
                (''avg_turns_per_conversation'', average total_turns valid),
                (''avg_messages_per_conversation'', average total_assistant_messages valid)])
      else if current_calculation_mode = ''simple''
      then (let total_user_tokens = total_of ''simple_total_user_tokens'' valid;
                total_assistant_tokens = total_of ''simple_total_assistant_tokens'' valid;
                total_system_tokens = total_of ''simple_total_system_tokens'' valid;
                total_input_tokens = total_of ''simple_total_input_tokens'' valid;
                total_output_tokens = total_of ''simple_total_output_tokens'' valid;
                total_input_cost = total_of ''simple_input_cost'' valid;
                total_output_cost = total_of ''simple_output_cost'' valid;
                total_cost_sum = total_of ''simple_total_cost'' valid;
                total_turns = total_of ''real_turns_count'' valid
            in [(''total_user_tokens'', total_user_tokens),
                (''total_assistant_tokens'', total_assistant_tokens),
                (''total_system_tokens'', total_system_tokens),
                (''total_input_tokens'', total_input_tokens),
                (''total_output_tokens'', total_output_tokens),
                (''total_tokens'', total_input_tokens + total_output_tokens),
                (''total_input_cost'', total_input_cost),
                (''total_output_cost'', total_output_cost),
                (''total_cost'', total_cost_sum),
                (''total_turns'', total_turns),
                (''avg_tokens_per_conversation'', average (total_input_tokens + total_output_tokens) valid),
                (''avg_cost_per_conversation'', average total_cost_sum valid),
                (''avg_turns_per_conversation'', average total_turns valid)])
      else [])"

section \<open>Notions of the specification\<close>

text \<open>
  The walk of the specification: the first \<open>k\<close> nodes met from \<open>current_id\<close> by moving
  to \<open>children[0]\<close> again and again, with no guard against a cycle.
\<close>

fun first_child_walk :: "node_mapping \<Rightarrow> string \<Rightarrow> nat \<Rightarrow> string list" where
  "first_child_walk conversation_mapping current_id 0 = []"
| "first_child_walk conversation_mapping current_id (Suc k) =
     current_id # (case children_of conversation_mapping current_id of
                     [] \<Rightarrow> []
                   | next_id # _ \<Rightarrow> first_child_walk conversation_mapping next_id k)"

text \<open>The node the walk starts at: the resolved root, or its first child below the synthetic root.\<close>

definition resolved_start :: "(string list \<Rightarrow> string list) \<Rightarrow> node_mapping \<Rightarrow> string option" where
  "resolved_start set_order conversation_mapping =
     (case find_root set_order conversation_mapping of
        None \<Rightarrow> None
      | Some root_id \<Rightarrow>
          if root_id = ''client-created-root''
          then (case children_of conversation_mapping root_id of [] \<Rightarrow> None | c # _ \<Rightarrow> Some c)
          else Some root_id)"

text \<open>The messages of a sequence of identifiers, in order: the nodes the analysis does not skip.\<close>

definition messages_of :: "node_mapping \<Rightarrow> string list \<Rightarrow> (string \<times> node \<times> message) list" where
  "messages_of mapping ids =
     concat (map (\<lambda>msg_id. case map_of mapping msg_id of
                    None \<Rightarrow> []
                  | Some msg_data \<Rightarrow>
                      (case message msg_data of None \<Rightarrow> [] | Some msg \<Rightarrow> [(msg_id, msg_data, msg)]))
                 ids)"

definition history_tokens :: "(string option \<Rightarrow> tokenizer) \<Rightarrow> string \<times> node \<times> message \<Rightarrow> rat" where
  "history_tokens gt entry = snd (extract_text_from_message gt (fst (snd entry)) False)"

definition is_assistant :: "string \<times> node \<times> message \<Rightarrow> bool" where
  "is_assistant entry = (get_role (snd (snd entry)) = ''assistant'')"

text \<open>What the specification says of an entry of the sequence.\<close>

definition ends_turn :: "string \<times> node \<times> message \<Rightarrow> bool" where
  "ends_turn entry = end_turn (snd (snd entry))"

definition output_tokens_of :: "(string option \<Rightarrow> tokenizer) \<Rightarrow> string \<times> node \<times> message \<Rightarrow> rat" where
  "output_tokens_of gt entry = snd (extract_text_from_message gt (fst (snd entry)) True)"

definition history_entry :: "(string option \<Rightarrow> tokenizer) \<Rightarrow> string \<times> node \<times> message \<Rightarrow> string \<times> string \<times> rat" where
  "history_entry gt entry = (fst entry, get_role (snd (snd entry)), history_tokens gt entry)"

text \<open>The tokens of one thought entry when thoughts are counted.\<close>

definition thought_tokens :: "tokenizer \<Rightarrow> thought \<Rightarrow> rat" where
  "thought_tokens tokenizer th =
     (if summary th \<noteq> [] then of_nat (count_tokens (summary th) tokenizer) else 0) +
     (if thought_content th \<noteq> []
      then of_nat (count_tokens (thought_content th) tokenizer) * THOUGHT_CONTENT_MULTIPLIER else 0)"

text \<open>
  The record of an assistant message, from the state before the message: \<open>rate\<close> and
  \<open>output_rate\<close> are the rates of its model.
\<close>

definition new_turn ::
  "(string option \<Rightarrow> tokenizer) \<Rightarrow> detailed_state \<Rightarrow> string \<times> node \<times> message \<Rightarrow> rat \<Rightarrow> rat \<Rightarrow> turn_record" where
  "new_turn gt st entry rate output_rate =
     (let tokens_in = sum_list (map (\<lambda>(_, _, tok_count). tok_count) (history_for_inputs st));
          cost_in = (tokens_in / 1000000) * (if current_turn_index st > 0 then rate / 2 else rate);
          cost_out = (output_tokens_of gt entry / 1000000) * output_rate
      in \<lparr>assistant_message_id = fst entry,
          turn_index = current_turn_index st,
          input_tokens = tokens_in,
          output_tokens = output_tokens_of gt entry,
          input_cost = cost_in,
          output_cost = cost_out,
          turn_total_cost = cost_in + cost_out,
          turn_model_slug = identify_model_from_metadata (snd (snd entry)),
          input_discounted = (current_turn_index st > 0),
          is_turn_end = ends_turn entry\<rparr>)"

text \<open>
  Position \<open>i\<close> of the sequence: its identifier, the number of turn ends before it, and
  the history tokens of the entries before it.
\<close>

definition expected_key :: "(string option \<Rightarrow> tokenizer) \<Rightarrow> (string \<times> node \<times> message) list \<Rightarrow> nat \<Rightarrow> string \<times> nat \<times> rat" where
  "expected_key gt ms i =
     (fst (ms ! i), length (filter ends_turn (take i ms)), sum_list (map (history_tokens gt) (take i ms)))"

definition turn_key :: "turn_record \<Rightarrow> string \<times> nat \<times> rat" where
  "turn_key t = (assistant_message_id t, turn_index t, input_tokens t)"

text \<open>An entry is a node of the mapping together with its message.\<close>

definition entry_of :: "node_mapping \<Rightarrow> string \<times> node \<times> message \<Rightarrow> bool" where
  "entry_of m entry =
     (map_of m (fst entry) = Some (fst (snd entry)) \<and> message (fst (snd entry)) = Some (snd (snd entry)))"

text \<open>The state after a message that is not from the assistant, and after one that is.\<close>

definition after_other :: "(string option \<Rightarrow> tokenizer) \<Rightarrow> detailed_state \<Rightarrow> string \<times> node \<times> message \<Rightarrow> detailed_state" where
  "after_other gt st entry =
     st\<lparr>history_for_inputs := history_for_inputs st @ [history_entry gt entry],
        current_turn_index := current_turn_index st + (if ends_turn entry then 1 else 0)\<rparr>"

definition after_assistant ::
  "(string option \<Rightarrow> tokenizer) \<Rightarrow> detailed_state \<Rightarrow> string \<times> node \<times> message \<Rightarrow> rat \<Rightarrow> rat \<Rightarrow> detailed_state" where
  "after_assistant gt st entry rate output_rate =
     st\<lparr>history_for_inputs := history_for_inputs st @ [history_entry gt entry],
        current_turn_index := current_turn_index st + (if ends_turn entry then 1 else 0),
        processed_turns := processed_turns st @ [new_turn gt st entry rate output_rate],
        assistant_message_count_in_convo := assistant_message_count_in_convo st + 1,
        conversation_total_input_tokens := conversation_total_input_tokens st +
           input_tokens (new_turn gt st entry rate output_rate),
        conversation_total_output_tokens := conversation_total_output_tokens st +
           output_tokens (new_turn gt st entry rate output_rate),
        conversation_total_cost := conversation_total_cost st +
           turn_total_cost (new_turn gt st entry rate output_rate)\<rparr>"

text \<open>
  Three properties of a state of the loop: what it has recorded agrees with the positions in
  the sequence; its totals are the sums over its records; a record was charged the rate of
  its message, halved after the first turn.
\<close>

definition positions_ok :: "(string option \<Rightarrow> tokenizer) \<Rightarrow> (string \<times> node \<times> message) list \<Rightarrow> detailed_state \<Rightarrow> bool" where
  "positions_ok gt ms st =
     (history_for_inputs st = map (history_entry gt) ms \<and>
      current_turn_index st = length (filter ends_turn ms) \<and>
      map turn_key (processed_turns st) =
        map (expected_key gt ms) (filter (\<lambda>i. is_assistant (ms ! i)) [0..<length ms]))"

definition totals_ok :: "detailed_state \<Rightarrow> bool" where
  "totals_ok st =
     (conversation_total_cost st = sum_list (map turn_total_cost (processed_turns st)) \<and>
      conversation_total_input_tokens st = sum_list (map input_tokens (processed_turns st)) \<and>
      conversation_total_output_tokens st = sum_list (map output_tokens (processed_turns st)) \<and>
      assistant_message_count_in_convo st = length (processed_turns st))"

definition rate_ok :: "node_mapping \<Rightarrow> costs_config \<Rightarrow> turn_record \<Rightarrow> bool" where
  "rate_ok m c t =
     (\<exists>msg_data msg rate.
        map_of m (assistant_message_id t) = Some msg_data \<and> message msg_data = Some msg \<and>
        input_cost_per_million_tokens (current_model_costs c (model_slug msg)) = Some rate \<and>
        input_cost t = (input_tokens t / 1000000) * (if turn_index t = 0 then rate else rate / 2) \<and>
        input_discounted t = (turn_index t > 0))"

section \<open>Example data\<close>

definition length_tokenizer :: "string option \<Rightarrow> tokenizer" where
  "length_tokenizer slug text = Some (length text)"

definition text_message :: "string \<Rightarrow> string \<Rightarrow> string option \<Rightarrow> bool \<Rightarrow> message" where
  "text_message role txt slug ends =
     \<lparr>author_role = Some role, content = Text [Some txt], model_slug = slug,
      default_model_slug = None, has_finish_details = False, recipient = None, end_turn = ends\<rparr>"

definition thoughts_message :: "thought list \<Rightarrow> string option \<Rightarrow> bool \<Rightarrow> message" where
  "thoughts_message ths slug ends =
     \<lparr>author_role = Some ''assistant'', content = Thoughts ths, model_slug = slug,
      default_model_slug = None, has_finish_details = False, recipient = None, end_turn = ends\<rparr>"

text \<open>A root whose only child is itself.\<close>

definition m_loop :: node_mapping where
  "m_loop = [(''r'', \<lparr>parent = None, children = [''r''],
                      message = Some (text_message ''user'' ''Hi'' None False)\<rparr>)]"

text \<open>A root and its child, whose first child is the root again.\<close>

definition m_cycle :: node_mapping where
  "m_cycle =
     [(''r'', \<lparr>parent = None, children = [''a''],
               message = Some (text_message ''user'' ''Hi'' None False)\<rparr>),
      (''a'', \<lparr>parent = Some ''r'', children = [''r''],
               message = Some (text_message ''assistant'' ''Hello'' (Some ''o3'') True)\<rparr>)]"

text \<open>
  Two turns of one user and one assistant message each, below the synthetic root; \<open>X\<close>
  is a sibling off the first-children path.
\<close>

definition node_A :: node where
  "node_A = \<lparr>parent = Some ''client-created-root'', children = [''B'', ''X''],
             message = Some (text_message ''user'' ''Hi'' None False)\<rparr>"

definition node_B :: node where
  "node_B = \<lparr>parent = Some ''A'', children = [''C''],
             message = Some (text_message ''assistant'' ''Hello'' (Some ''unknown-model'') True)\<rparr>"

definition node_X :: node where
  "node_X = \<lparr>parent = Some ''A'', children = [],
             message = Some (text_message ''assistant'' ''Other'' (Some ''o3'') True)\<rparr>"

definition node_C :: node where
  "node_C = \<lparr>parent = Some ''B'', children = [''D''],
             message = Some (text_message ''user'' ''More'' None False)\<rparr>"

definition node_D :: node where
  "node_D = \<lparr>parent = Some ''C'', children = [],
             message = Some (text_message ''assistant'' ''Sure'' (Some ''o3'') True)\<rparr>"

definition m_two_turns :: node_mapping where
  "m_two_turns =
     [(''client-created-root'', \<lparr>parent = None, children = [''A''], message = None\<rparr>),
      (''A'', node_A), (''B'', node_B), (''X'', node_X), (''C'', node_C), (''D'', node_D)]"

definition entries_two_turns :: "(string \<times> node \<times> message) list" where
  "entries_two_turns =
     [(''A'', node_A, text_message ''user'' ''Hi'' None False),
      (''B'', node_B, text_message ''assistant'' ''Hello'' (Some ''unknown-model'') True),
      (''C'', node_C, text_message ''user'' ''More'' None False),
      (''D'', node_D, text_message ''assistant'' ''Sure'' (Some ''o3'') True)]"

definition conv_two_turns :: conversation where
  "conv_two_turns = \<lparr>title = Some ''two turns'', create_time = None, update_time = None,
                      conv_mapping = Some m_two_turns\<rparr>"

definition costs_o3 :: costs_config where
  "costs_o3 = [(''o3'', rates 10 40)]"

definition costs_incomplete :: costs_config where
  "costs_incomplete =
     [(''o3'', \<lparr>input_cost_per_million_tokens = Some 10, output_cost_per_million_tokens = None\<rparr>)]"

definition st_two_turns :: detailed_state where
  "st_two_turns =
     \<lparr>history_for_inputs = [(''A'', ''user'', 2), (''B'', ''assistant'', 5), (''C'', ''user'', 4),
                                   (''D'', ''assistant'', 4)],
          current_turn_index = 2,
          processed_turns =
            [\<lparr>assistant_message_id = ''B'', turn_index = 0, input_tokens = 2, output_tokens = 5,
              input_cost = 2 / 1000000 * 10, output_cost = 5 / 1000000 * 40,
              turn_total_cost = 2 / 1000000 * 10 + 5 / 1000000 * 40,
              turn_model_slug = ''unknown-model'', input_discounted = False, is_turn_end = True\<rparr>,
             \<lparr>assistant_message_id = ''D'', turn_index = 1, input_tokens = 11, output_tokens = 4,
              input_cost = 11 / 1000000 * 5, output_cost = 4 / 1000000 * 40,
              turn_total_cost = 11 / 1000000 * 5 + 4 / 1000000 * 40,
              turn_model_slug = ''o3'', input_discounted = True, is_turn_end = True\<rparr>],
          assistant_message_count_in_convo = 2,
          conversation_total_input_tokens = 13,
          conversation_total_output_tokens = 9,
          conversation_total_cost = 2 / 1000000 * 10 + 5 / 1000000 * 40 + (11 / 1000000 * 5 + 4 / 1000000 * 40)\<rparr>"

text \<open>One turn: a user message and an assistant message made of one thought.\<close>

definition node_U :: node where
  "node_U = \<lparr>parent = Some ''client-created-root'', children = [''T''],
             message = Some (text_message ''user'' ''Hi'' None False)\<rparr>"

definition node_T :: node where
  "node_T = \<lparr>parent = Some ''U'', children = [],
             message = Some (thoughts_message
               [\<lparr>summary = ''plan'', thought_content = ''thinking...''\<rparr>] (Some ''o3'') True)\<rparr>"

definition m_one_turn :: node_mapping where
  "m_one_turn =
     [(''client-created-root'', \<lparr>parent = None, children = [''U''], message = None\<rparr>),
      (''U'', node_U), (''T'', node_T)]"

definition conv_one_turn :: conversation where
  "conv_one_turn = \<lparr>title = Some ''one turn'', create_time = None, update_time = None,
                     conv_mapping = Some m_one_turn\<rparr>"

definition st_one_turn :: detailed_state where
  "st_one_turn =
     \<lparr>history_for_inputs = [(''U'', ''user'', 2), (''T'', ''assistant'', 0)],
      current_turn_index = 1,
      processed_turns =
        [\<lparr>assistant_message_id = ''T'', turn_index = 0, input_tokens = 2, output_tokens = 4 + 11 * (12 / 10),
          input_cost = 2 / 1000000 * 10, output_cost = (4 + 11 * (12 / 10)) / 1000000 * 40,
          turn_total_cost = 2 / 1000000 * 10 + (4 + 11 * (12 / 10)) / 1000000 * 40,
          turn_model_slug = ''o3'', input_discounted = False, is_turn_end = True\<rparr>],
      assistant_message_count_in_convo = 1,
      conversation_total_input_tokens = 2,
      conversation_total_output_tokens = 4 + 11 * (12 / 10),
      conversation_total_cost = 2 / 1000000 * 10 + (4 + 11 * (12 / 10)) / 1000000 * 40\<rparr>"

text \<open>A synthetic root with no child: the linearizer returns the empty sequence.\<close>

definition m_bare_root :: node_mapping where
  "m_bare_root = [(''client-created-root'', \<lparr>parent = None, children = [], message = None\<rparr>)]"

definition conv_bare_root :: conversation where
  "conv_bare_root = \<lparr>title = None, create_time = None, update_time = None,
                      conv_mapping = Some m_bare_root\<rparr>"

section \<open>The content extractor\<close>

lemma snd_thought_step:
  "snd (thought_step tokenizer acc th) = snd acc + thought_tokens tokenizer th"
  by (simp add: thought_step_def thought_tokens_def Let_def)

lemma snd_thoughts_loop:
  "snd (thoughts_loop tokenizer acc ths) = snd acc + sum_list (map (thought_tokens tokenizer) ths)"
  by (induction ths arbitrary: acc) (simp_all add: snd_thought_step add.assoc)

text \<open>
  C3.  For a message whose content is of type \<open>thoughts\<close>: with \<open>count_thoughts\<close> true the
  token total of the extractor is the sum, over the thought entries, of the token count
  of the summary (as it is, when the summary is not empty) plus the token count of the
  content times \<open>THOUGHT_CONTENT_MULTIPLIER\<close> (when the content is not empty), and the
  multiplier is 1.2; with \<open>count_thoughts\<close> false the total is 0.
\<close>

theorem thoughts_token_total:
  assumes "message message_data = Some msg" and "content msg = Thoughts ths"
  shows "snd (extract_text_from_message gt message_data True) =
           sum_list (map (thought_tokens (gt (model_slug msg))) ths)
         \<and> snd (extract_text_from_message gt message_data False) = 0
         \<and> THOUGHT_CONTENT_MULTIPLIER = 12 / 10"
  using assms by (simp add: extract_text_from_message_def snd_thoughts_loop THOUGHT_CONTENT_MULTIPLIER_def)

theorem thoughts_token_total_witness:
  "snd (extract_text_from_message length_tokenizer
          \<lparr>parent = None, children = [],
           message = Some (thoughts_message
              [\<lparr>summary = ''plan'', thought_content = ''thinking...''\<rparr>,
               \<lparr>summary = [], thought_content = ''more''\<rparr>] None True)\<rparr> True) = 4 + 66 / 5 + 24 / 5
   \<and> snd (extract_text_from_message length_tokenizer
          \<lparr>parent = None, children = [],
           message = Some (thoughts_message
              [\<lparr>summary = ''plan'', thought_content = ''thinking...''\<rparr>,
               \<lparr>summary = [], thought_content = ''more''\<rparr>] None True)\<rparr> False) = 0"
  using thoughts_token_total [of
      "\<lparr>parent = None, children = [],
        message = Some (thoughts_message
           [\<lparr>summary = ''plan'', thought_content = ''thinking...''\<rparr>,
            \<lparr>summary = [], thought_content = ''more''\<rparr>] None True)\<rparr>"
      "thoughts_message
           [\<lparr>summary = ''plan'', thought_content = ''thinking...''\<rparr>,
            \<lparr>summary = [], thought_content = ''more''\<rparr>] None True"
      "[\<lparr>summary = ''plan'', thought_content = ''thinking...''\<rparr>,
        \<lparr>summary = [], thought_content = ''more''\<rparr>]"
      length_tokenizer]
  by (simp add: thoughts_message_def thought_tokens_def count_tokens_def length_tokenizer_def
        THOUGHT_CONTENT_MULTIPLIER_def)

section \<open>The thread linearizer\<close>

lemma tl_walk_1: "tl (first_child_walk m cur (Suc 0)) = []"
  by (simp split: list.splits)

lemma follow_first_child_Nil:
  "follow_first_child m [] vis acc = Some acc"
  by (subst follow_first_child.simps) simp

lemma follow_first_child_Cons:
  "follow_first_child m (c # cs) vis acc =
     (case map_of m (c # cs) of
        None \<Rightarrow> Some acc
      | Some msg_node \<Rightarrow>
          (case children msg_node of
             [] \<Rightarrow> Some acc
           | next_id # _ \<Rightarrow>
               if next_id \<in> vis then Some acc
               else follow_first_child m next_id (insert next_id vis)
                      (if has_message m next_id then acc @ [next_id] else acc)))"
  by (subst follow_first_child.simps) simp

lemma follow_first_child_total:
  "\<exists>k. follow_first_child m cur vis acc =
         Some (acc @ filter (has_message m) (tl (first_child_walk m cur (Suc k))))"
proof (induction "2 * card (set (map fst m) - vis) + (if cur \<in> set (map fst m) then 1 else 0 :: nat)"
        arbitrary: cur vis acc rule: less_induct)
  case less
  have stop: "follow_first_child m cur vis acc = Some acc \<Longrightarrow> ?case"
  proof -
    assume "follow_first_child m cur vis acc = Some acc"
    then have "follow_first_child m cur vis acc =
         Some (acc @ filter (has_message m) (tl (first_child_walk m cur (Suc 0))))"
      by (simp add: tl_walk_1 del: first_child_walk.simps)
    then show ?thesis by blast
  qed
  show ?case
  proof (cases "cur = []")
    case True
    then show ?thesis by (intro stop) (simp add: follow_first_child_Nil)
  next
    case ne: False
    show ?thesis
    proof (cases "map_of m cur")
      case None
      then show ?thesis by (intro stop) (subst follow_first_child.simps, simp)
    next
      case (Some nd)
      then have inK: "cur \<in> set (map fst m)"
        by (metis domI dom_map_of_conv_image_fst set_map)
      show ?thesis
      proof (cases "children nd")
        case Nil
        with Some show ?thesis by (intro stop) (subst follow_first_child.simps, simp)
      next
        case (Cons nxt rest)
        show ?thesis
        proof (cases "nxt \<in> vis")
          case True
          with Some Cons show ?thesis by (intro stop) (subst follow_first_child.simps, simp)
        next
          case False
          let ?acc' = "if has_message m nxt then acc @ [nxt] else acc"
          have unfold: "follow_first_child m cur vis acc =
                follow_first_child m nxt (insert nxt vis) ?acc'"
            using ne Some Cons False by (subst follow_first_child.simps) simp
          have fin: "finite (set (map fst m) - vis)" by simp
          have dec: "2 * card (set (map fst m) - insert nxt vis) + (if nxt \<in> set (map fst m) then 1 else 0 :: nat)
                 < 2 * card (set (map fst m) - vis) + (if cur \<in> set (map fst m) then 1 else 0)"
          proof (cases "nxt \<in> set (map fst m)")
            case True
            then have "nxt \<in> set (map fst m) - vis" using False by simp
            then have "card (set (map fst m) - insert nxt vis) < card (set (map fst m) - vis)"
              by (metis Diff_insert card_Diff1_less fin)
            then show ?thesis using inK by simp
          next
            case nk: False
            then have "set (map fst m) - insert nxt vis = set (map fst m) - vis" by auto
            then show ?thesis using inK nk by simp
          qed
          from less[OF dec] obtain k where
            k: "follow_first_child m nxt (insert nxt vis) ?acc' =
                Some (?acc' @ filter (has_message m) (tl (first_child_walk m nxt (Suc k))))"
            by blast
          have ch: "children_of m cur = nxt # rest"
            using Some Cons by (simp add: children_of_def)
          have "follow_first_child m cur vis acc =
                Some (acc @ filter (has_message m) (tl (first_child_walk m cur (Suc (Suc k)))))"
            using unfold k ch by simp
          then show ?thesis by blast
        qed
      qed
    qed
  qed
qed

lemma filter_walk_Suc:
  "filter (has_message m) (first_child_walk m s (Suc k)) =
     (if has_message m s then [s] else []) @ filter (has_message m) (tl (first_child_walk m s (Suc k)))"
  by simp

lemma linearize_result:
  "\<exists>ids. get_message_chronological_order set_order m = Some ids \<and>
     (case resolved_start set_order m of
        None \<Rightarrow> ids = []
      | Some s \<Rightarrow> \<exists>k. ids = filter (has_message m) (first_child_walk m s k))"
proof (cases "m = []")
  case True
  then have "get_message_chronological_order set_order m = Some []"
    by (simp add: get_message_chronological_order_def)
  moreover have "\<exists>k. [] = filter (has_message m) (first_child_walk m s k)" for s
    by (rule exI[of _ 0]) simp
  ultimately show ?thesis by (simp split: option.splits)
next
  case mne: False
  show ?thesis
  proof (cases "find_root set_order m")
    case None
    then show ?thesis
      by (simp add: get_message_chronological_order_def resolved_start_def)
  next
    case (Some root_id)
    show ?thesis
    proof (cases "root_id = ''client-created-root''")
      case ccr: True
      show ?thesis
      proof (cases "children_of m root_id")
        case Nil
        then show ?thesis using Some ccr mne
          by (simp add: get_message_chronological_order_def resolved_start_def walk_start_def)
      next
        case (Cons c cs)
        obtain k where k: "follow_first_child m c (if has_message m c then {c} else {})
              (if has_message m c then [c] else []) =
            Some ((if has_message m c then [c] else []) @
                  filter (has_message m) (tl (first_child_walk m c (Suc k))))"
          using follow_first_child_total by blast
        have "get_message_chronological_order set_order m =
                Some (filter (has_message m) (first_child_walk m c (Suc k)))"
          using Some ccr mne Cons k
          by (simp add: get_message_chronological_order_def walk_start_def del: first_child_walk.simps
                   add: filter_walk_Suc split: if_splits)
        moreover have "resolved_start set_order m = Some c"
          using Some ccr Cons by (simp add: resolved_start_def)
        ultimately show ?thesis by (simp del: first_child_walk.simps) blast
      qed
    next
      case nccr: False
      obtain k where k: "follow_first_child m root_id {}
              (if has_message m root_id then [root_id] else []) =
            Some ((if has_message m root_id then [root_id] else []) @
                  filter (has_message m) (tl (first_child_walk m root_id (Suc k))))"
        using follow_first_child_total by blast
      have "get_message_chronological_order set_order m =
                Some (filter (has_message m) (first_child_walk m root_id (Suc k)))"
        using Some nccr mne k
        by (simp add: get_message_chronological_order_def walk_start_def del: first_child_walk.simps
                 add: filter_walk_Suc split: if_splits)
      moreover have "resolved_start set_order m = Some root_id"
        using Some nccr by (simp add: resolved_start_def)
      ultimately show ?thesis by (simp del: first_child_walk.simps) blast
    qed
  qed
qed

lemmas linearize_eval =
  get_message_chronological_order_def find_root_def walk_start_def resolved_start_def Let_def
  has_message_def children_of_def looks_like_guid_def follow_first_child_Nil follow_first_child_Cons

text \<open>
  C6.  For every mapping, cyclic or not, the linearizer returns, and what it returns is
  the message-bearing part of a finite prefix of the walk along first children from the
  node it starts at (the empty sequence where no start is found).
\<close>

theorem linearizer_terminates:
  "\<exists>ids. get_message_chronological_order set_order m = Some ids \<and>
     (case resolved_start set_order m of
        None \<Rightarrow> ids = []
      | Some s \<Rightarrow> \<exists>k. ids = filter (has_message m) (first_child_walk m s k))"
  by (rule linearize_result)

theorem linearizer_terminates_witness:
  "get_message_chronological_order (\<lambda>xs. xs) m_cycle = Some [''r'', ''a'', ''r''] \<and>
   resolved_start (\<lambda>xs. xs) m_cycle = Some ''r'' \<and>
   (\<exists>k. [''r'', ''a'', ''r''] = filter (has_message m_cycle) (first_child_walk m_cycle ''r'' k))"
proof -
  have 1: "get_message_chronological_order (\<lambda>xs. xs) m_cycle = Some [''r'', ''a'', ''r'']"
    by (simp add: linearize_eval m_cycle_def)
  have 2: "resolved_start (\<lambda>xs. xs) m_cycle = Some ''r''"
    by (simp add: linearize_eval m_cycle_def)
  show ?thesis
    using linearizer_terminates [of "\<lambda>xs. xs" m_cycle] by (simp add: 1 2)
qed

text \<open>
  C5.  The claim is that no identifier occurs twice in the sequence.  A root that carries
  a message is appended before the loop without entering \<open>visited_ids\<close>, so a cycle of
  first children through the root appends it a second time.
\<close>

theorem linearizer_repeats_root:
  "get_message_chronological_order (\<lambda>xs. xs) m_loop = Some [''r'', ''r''] \<and>
   \<not> distinct [''r'', ''r'']"
  by (simp add: linearize_eval m_loop_def)

section \<open>The accrual engine\<close>

lemma messages_of_Nil [simp]: "messages_of m [] = []"
  by (simp add: messages_of_def)

lemma messages_of_append: "messages_of m (xs @ ys) = messages_of m xs @ messages_of m ys"
  by (simp add: messages_of_def)

lemma messages_of_single:
  "messages_of m [x] =
     (case map_of m x of None \<Rightarrow> []
      | Some nd \<Rightarrow> (case message nd of None \<Rightarrow> [] | Some msg \<Rightarrow> [(x, nd, msg)]))"
  by (simp add: messages_of_def split: option.splits)

lemma messages_of_single_cases:
  "messages_of m [x] = [] \<or> (\<exists>e. messages_of m [x] = [e])"
  by (simp add: messages_of_single split: option.splits)

lemma messages_of_entry:
  "messages_of m [x] = [e] \<Longrightarrow> entry_of m e \<and> fst e = x"
  by (auto simp add: messages_of_single entry_of_def split: option.splits)

lemma detailed_loop_snoc:
  "detailed_loop gt m c st (ids @ [x]) =
     (case detailed_loop gt m c st ids of Inl e \<Rightarrow> Inl e | Inr st' \<Rightarrow> detailed_step gt m c st' x)"
  by (induction ids arbitrary: st) (simp_all split: sum.splits)

lemma detailed_step_skip:
  "messages_of m [x] = [] \<Longrightarrow> detailed_step gt m c st x = Inr st"
  by (simp add: messages_of_single detailed_step_def split: option.splits)

lemma detailed_step_other:
  assumes "messages_of m [x] = [entry]" and "\<not> is_assistant entry"
  shows "detailed_step gt m c st x = Inr (after_other gt st entry)"
  using assms
  by (auto simp add: messages_of_single detailed_step_def is_assistant_def ends_turn_def
        history_entry_def history_tokens_def after_other_def Let_def split: option.splits)

lemma detailed_step_assistant:
  assumes "messages_of m [x] = [entry]" and "is_assistant entry"
    and "detailed_step gt m c st x = Inr st'"
  shows "\<exists>rate output_rate.
           input_cost_per_million_tokens (current_model_costs c (model_slug (snd (snd entry)))) = Some rate \<and>
           output_cost_per_million_tokens (current_model_costs c (model_slug (snd (snd entry)))) = Some output_rate \<and>
           st' = after_assistant gt st entry rate output_rate"
  using assms
  by (auto simp add: messages_of_single detailed_step_def is_assistant_def ends_turn_def
        history_entry_def history_tokens_def output_tokens_of_def new_turn_def assistant_costs_def
        after_assistant_def subscript_def Let_def split: option.splits sum.splits if_splits)

text \<open>
  Induction over a run of the loop that does not raise: a property of the entries seen
  so far and the state holds at the end when it holds at the start and both kinds of
  step keep it.
\<close>

lemma detailed_loop_induct:
  assumes run: "detailed_loop gt m c initial_state ids = Inr st"
    and start: "P [] initial_state"
    and other: "\<And>ms st0 e. P ms st0 \<Longrightarrow> entry_of m e \<Longrightarrow> \<not> is_assistant e \<Longrightarrow>
                   P (ms @ [e]) (after_other gt st0 e)"
    and assistant: "\<And>ms st0 e rate output_rate. P ms st0 \<Longrightarrow> entry_of m e \<Longrightarrow> is_assistant e \<Longrightarrow>
       input_cost_per_million_tokens (current_model_costs c (model_slug (snd (snd e)))) = Some rate \<Longrightarrow>
       output_cost_per_million_tokens (current_model_costs c (model_slug (snd (snd e)))) = Some output_rate \<Longrightarrow>
       P (ms @ [e]) (after_assistant gt st0 e rate output_rate)"
  shows "P (messages_of m ids) st"
  using run
proof (induction ids arbitrary: st rule: rev_induct)
  case Nil
  then show ?case using start by auto
next
  case (snoc x xs)
  from snoc.prems obtain st0 where
    st0: "detailed_loop gt m c initial_state xs = Inr st0" and
    step: "detailed_step gt m c st0 x = Inr st"
    by (auto simp add: detailed_loop_snoc split: sum.splits)
  note IH = snoc.IH [OF st0]
  have app: "messages_of m (xs @ [x]) = messages_of m xs @ messages_of m [x]"
    by (rule messages_of_append)
  consider (skip) "messages_of m [x] = []"
    | (entry) e where "messages_of m [x] = [e]"
    using messages_of_single_cases [of m x] by blast
  then show ?case
  proof cases
    case skip
    then have "st = st0" using step by (simp add: detailed_step_skip)
    then show ?thesis using IH skip app by simp
  next
    case (entry e)
    have ent: "entry_of m e" using messages_of_entry [OF entry] by simp
    show ?thesis
    proof (cases "is_assistant e")
      case False
      then have "st = after_other gt st0 e"
        using step detailed_step_other [OF entry False, of gt c st0] by simp
      then show ?thesis using other [OF IH ent False] by (simp add: app entry)
    next
      case True
      from detailed_step_assistant [OF entry True step] obtain rate output_rate where
        r: "input_cost_per_million_tokens (current_model_costs c (model_slug (snd (snd e)))) = Some rate"
        and o: "output_cost_per_million_tokens (current_model_costs c (model_slug (snd (snd e)))) = Some output_rate"
        and st: "st = after_assistant gt st0 e rate output_rate"
        by blast
      show ?thesis using assistant [OF IH ent True r o] by (simp add: app entry st)
    qed
  qed
qed

lemma count_real_turns_messages:
  "count_real_turns m ids = length (filter ends_turn (messages_of m ids))"
proof -
  have "foldl (\<lambda>turn_count msg_id.
              case map_of m msg_id of
                None \<Rightarrow> turn_count
              | Some msg_data \<Rightarrow>
                  (case message msg_data of
                     None \<Rightarrow> turn_count
                   | Some msg \<Rightarrow> if end_turn msg then turn_count + 1 else turn_count)) a ids
        = a + length (filter ends_turn (messages_of m ids))" for a :: nat
  proof (induction ids arbitrary: a)
    case Nil
    show ?case by simp
  next
    case (Cons x xs)
    have split: "messages_of m (x # xs) = messages_of m [x] @ messages_of m xs"
      using messages_of_append [of m "[x]" xs] by simp
    show ?case
      by (simp add: Cons split messages_of_single ends_turn_def split: option.splits)
  qed
  from this [of 0] show ?thesis by (simp add: count_real_turns_def)
qed

lemma expected_keys_snoc:
  "map (expected_key gt (ms @ [e])) (filter (\<lambda>i. is_assistant ((ms @ [e]) ! i)) [0..<Suc (length ms)])
   = map (expected_key gt ms) (filter (\<lambda>i. is_assistant (ms ! i)) [0..<length ms])
     @ (if is_assistant e then [expected_key gt (ms @ [e]) (length ms)] else [])"
proof -
  have f: "filter (\<lambda>i. is_assistant ((ms @ [e]) ! i)) [0..<length ms]
         = filter (\<lambda>i. is_assistant (ms ! i)) [0..<length ms]"
    by (rule filter_cong) (simp_all add: nth_append)
  have m: "map (expected_key gt (ms @ [e])) (filter (\<lambda>i. is_assistant (ms ! i)) [0..<length ms])
         = map (expected_key gt ms) (filter (\<lambda>i. is_assistant (ms ! i)) [0..<length ms])"
    by (rule map_cong) (simp_all add: expected_key_def nth_append)
  show ?thesis by (simp add: f m)
qed

lemma sum_history:
  "(\<lambda>(_, _, tok_count). tok_count) \<circ> history_entry gt = history_tokens gt"
  by (simp add: fun_eq_iff history_entry_def)

lemma detailed_loop_positions:
  assumes "detailed_loop gt m c initial_state ids = Inr st"
  shows "positions_ok gt (messages_of m ids) st"
proof (rule detailed_loop_induct [OF assms])
  show "positions_ok gt [] initial_state"
    by (simp add: positions_ok_def initial_state_def)
next
  fix ms and st0 :: detailed_state and e
  assume "positions_ok gt ms st0" and "\<not> is_assistant e"
  then show "positions_ok gt (ms @ [e]) (after_other gt st0 e)"
    by (simp add: positions_ok_def after_other_def expected_keys_snoc del: upt_Suc)
next
  fix ms and st0 :: detailed_state and e rate output_rate
  assume ok: "positions_ok gt ms st0" and a: "is_assistant e"
  have key: "turn_key (new_turn gt st0 e rate output_rate) = expected_key gt (ms @ [e]) (length ms)"
    using ok by (simp add: positions_ok_def turn_key_def new_turn_def expected_key_def Let_def sum_history)
  show "positions_ok gt (ms @ [e]) (after_assistant gt st0 e rate output_rate)"
    using ok a by (simp add: positions_ok_def after_assistant_def expected_keys_snoc key del: upt_Suc)
qed

lemma detailed_loop_totals:
  assumes "detailed_loop gt m c initial_state ids = Inr st"
  shows "totals_ok st"
proof (rule detailed_loop_induct [OF assms, where P = "\<lambda>ms st. totals_ok st"])
  show "totals_ok initial_state"
    by (simp add: totals_ok_def initial_state_def)
next
  fix st0 :: detailed_state and e
  assume "totals_ok st0"
  then show "totals_ok (after_other gt st0 e)"
    by (simp add: totals_ok_def after_other_def)
next
  fix st0 :: detailed_state and e rate output_rate
  assume "totals_ok st0"
  then show "totals_ok (after_assistant gt st0 e rate output_rate)"
    by (simp add: totals_ok_def after_assistant_def)
qed

lemma detailed_loop_rates:
  assumes "detailed_loop gt m c initial_state ids = Inr st"
  shows "list_all (rate_ok m c) (processed_turns st)"
proof (rule detailed_loop_induct [OF assms, where P = "\<lambda>ms st. list_all (rate_ok m c) (processed_turns st)"])
  show "list_all (rate_ok m c) (processed_turns initial_state)"
    by (simp add: initial_state_def)
next
  fix st0 :: detailed_state and e
  assume "list_all (rate_ok m c) (processed_turns st0)"
  then show "list_all (rate_ok m c) (processed_turns (after_other gt st0 e))"
    by (simp add: after_other_def)
next
  fix st0 :: detailed_state and e rate output_rate
  assume ok: "list_all (rate_ok m c) (processed_turns st0)" and ent: "entry_of m e"
    and r: "input_cost_per_million_tokens (current_model_costs c (model_slug (snd (snd e)))) = Some rate"
  have "rate_ok m c (new_turn gt st0 e rate output_rate)"
    unfolding rate_ok_def using ent r
    by (intro exI [of _ "fst (snd e)"] exI [of _ "snd (snd e)"] exI [of _ rate])
       (simp add: entry_of_def new_turn_def Let_def)
  then show "list_all (rate_ok m c) (processed_turns (after_assistant gt st0 e rate output_rate))"
    using ok by (simp add: after_assistant_def)
qed

lemma detailed_loop_outputs:
  assumes "detailed_loop gt m c initial_state ids = Inr st"
  shows "map output_tokens (processed_turns st) =
           map (output_tokens_of gt) (filter is_assistant (messages_of m ids))"
proof (rule detailed_loop_induct [OF assms, where
         P = "\<lambda>ms st. map output_tokens (processed_turns st) = map (output_tokens_of gt) (filter is_assistant ms)"])
  show "map output_tokens (processed_turns initial_state) = map (output_tokens_of gt) (filter is_assistant [])"
    by (simp add: initial_state_def)
next
  fix ms and st0 :: detailed_state and e
  assume "map output_tokens (processed_turns st0) = map (output_tokens_of gt) (filter is_assistant ms)"
    and "\<not> is_assistant e"
  then show "map output_tokens (processed_turns (after_other gt st0 e)) =
             map (output_tokens_of gt) (filter is_assistant (ms @ [e]))"
    by (simp add: after_other_def)
next
  fix ms and st0 :: detailed_state and e rate output_rate
  assume "map output_tokens (processed_turns st0) = map (output_tokens_of gt) (filter is_assistant ms)"
    and "is_assistant e"
  then show "map output_tokens (processed_turns (after_assistant gt st0 e rate output_rate)) =
             map (output_tokens_of gt) (filter is_assistant (ms @ [e]))"
    by (simp add: after_assistant_def new_turn_def Let_def)
qed

lemma simple_step_assistant_tokens:
  "simple_assistant_tokens (simple_step gt m st x) =
     simple_assistant_tokens st + sum_list (map (output_tokens_of gt) (filter is_assistant (messages_of m [x])))"
  by (simp add: simple_step_def messages_of_single is_assistant_def output_tokens_of_def Let_def
        split: option.splits)

lemma simple_loop_assistant_tokens:
  "simple_assistant_tokens (foldl (simple_step gt m) st ids) =
     simple_assistant_tokens st + sum_list (map (output_tokens_of gt) (filter is_assistant (messages_of m ids)))"
proof (induction ids arbitrary: st)
  case Nil
  show ?case by simp
next
  case (Cons x xs)
  have split: "messages_of m (x # xs) = messages_of m [x] @ messages_of m xs"
    using messages_of_append [of m "[x]" xs] by simp
  show ?case by (simp add: Cons simple_step_assistant_tokens split)
qed

section \<open>The example conversation\<close>

lemmas nodes_two_turns = node_A_def node_B_def node_X_def node_C_def node_D_def

lemma order_two_turns:
  "get_message_chronological_order (\<lambda>xs. xs) m_two_turns = Some [''A'', ''B'', ''C'', ''D'']"
  by (simp add: linearize_eval m_two_turns_def nodes_two_turns)

lemmas step_eval =
  detailed_step_def assistant_costs_def subscript_def current_model_costs_def rates_truthy_def
  rates_def get_role_def extract_text_from_message_def count_tokens_def length_tokenizer_def
  text_message_def identify_model_from_metadata_def truthy_def initial_state_def Let_def

lemma loop_two_turns:
  "detailed_loop length_tokenizer m_two_turns costs_o3 initial_state [''A'', ''B'', ''C'', ''D''] =
     Inr st_two_turns"
  by (simp add: step_eval m_two_turns_def nodes_two_turns costs_o3_def st_two_turns_def)

lemma messages_two_turns:
  "messages_of m_two_turns [''A'', ''B'', ''C'', ''D''] = entries_two_turns"
  by (simp add: messages_of_def m_two_turns_def nodes_two_turns entries_two_turns_def)

lemma roles_two_turns:
  "map is_assistant entries_two_turns = [False, True, False, True]"
  by (simp add: entries_two_turns_def is_assistant_def get_role_def text_message_def)

lemma turn_ends_two_turns:
  "map ends_turn entries_two_turns = [False, True, False, True]"
  by (simp add: entries_two_turns_def ends_turn_def text_message_def)

lemma history_two_turns:
  "map (history_tokens length_tokenizer) entries_two_turns = [2, 5, 4, 4]"
  by (simp add: entries_two_turns_def history_tokens_def nodes_two_turns text_message_def
        extract_text_from_message_def count_tokens_def length_tokenizer_def)

lemma ids_two_turns:
  "map fst entries_two_turns = [''A'', ''B'', ''C'', ''D'']"
  by (simp add: entries_two_turns_def)

lemma count_two_turns: "count_real_turns m_two_turns [''A'', ''B'', ''C'', ''D''] = 2"
  using turn_ends_two_turns
  by (simp add: count_real_turns_messages messages_two_turns entries_two_turns_def)

lemma order_one_turn:
  "get_message_chronological_order (\<lambda>xs. xs) m_one_turn = Some [''U'', ''T'']"
  by (simp add: linearize_eval m_one_turn_def node_U_def node_T_def)

lemma loop_one_turn:
  "detailed_loop length_tokenizer m_one_turn costs_o3 initial_state [''U'', ''T''] = Inr st_one_turn"
  by (simp add: step_eval m_one_turn_def node_U_def node_T_def costs_o3_def st_one_turn_def
        thoughts_message_def thought_step_def THOUGHT_CONTENT_MULTIPLIER_def)

lemma order_bare_root:
  "get_message_chronological_order (\<lambda>xs. xs) m_bare_root = Some []"
  by (simp add: linearize_eval m_bare_root_def)

lemma loop_incomplete:
  "detailed_loop length_tokenizer m_two_turns costs_incomplete initial_state [''A'', ''B'', ''C'', ''D'']
     = Inl (KeyError ''output_cost_per_million_tokens'')"
  by (simp add: step_eval m_two_turns_def nodes_two_turns costs_incomplete_def)

section \<open>The analysis of one conversation\<close>

lemma analyze_detailed_run:
  assumes "analyze_conversation_tokens_and_costs gt set_order conv c md = Some (Inr (Detailed_result r))"
  obtains m ids st where
    "conv_mapping conv = Some m"
    "get_message_chronological_order set_order m = Some ids"
    "detailed_loop gt m c initial_state ids = Inr st"
    "turns_details r = processed_turns st"
    "total_cost r = conversation_total_cost st"
    "total_input_tokens_across_turns r = conversation_total_input_tokens st"
    "total_output_tokens_for_all_assistant_msgs r = conversation_total_output_tokens st"
    "assistant_messages_count r = assistant_message_count_in_convo st"
    "real_turns_count r = count_real_turns m ids"
  using assms
  by (auto simp add: analyze_conversation_tokens_and_costs_def Let_def detailed_mode_def
        split: option.splits if_splits sum.splits)

lemma analyze_simple_run:
  assumes "analyze_conversation_tokens_and_costs gt set_order conv c md = Some (Inr (Simple_result r))"
  obtains m ids where
    "conv_mapping conv = Some m"
    "get_message_chronological_order set_order m = Some ids"
    "simple_total_assistant_tokens r =
       simple_assistant_tokens (foldl (simple_step gt m)
         \<lparr>simple_user_tokens = 0, simple_assistant_tokens = 0, simple_system_tokens = 0\<rparr> ids)"
    "real_turns_count r = count_real_turns m ids"
  using assms
  by (auto simp add: analyze_conversation_tokens_and_costs_def Let_def simple_mode_def
        split: option.splits if_splits sum.splits prod.splits)

lemma analyze_detailed_eval:
  assumes "conv_mapping conv = Some m" and "m \<noteq> []"
    and "get_message_chronological_order set_order m = Some ids" and "ids \<noteq> []"
    and "md \<noteq> ''simple''"
    and "detailed_loop gt m c initial_state ids = Inr st"
  shows "\<exists>r. analyze_conversation_tokens_and_costs gt set_order conv c md = Some (Inr (Detailed_result r)) \<and>
           turns_details r = processed_turns st \<and>
           total_cost r = conversation_total_cost st \<and>
           total_input_tokens_across_turns r = conversation_total_input_tokens st \<and>
           total_output_tokens_for_all_assistant_msgs r = conversation_total_output_tokens st \<and>
           assistant_messages_count r = assistant_message_count_in_convo st \<and>
           real_turns_count r = count_real_turns m ids"
  using assms
  by (simp add: analyze_conversation_tokens_and_costs_def Let_def detailed_mode_def)

lemma analyze_two_turns:
  "\<exists>r. analyze_conversation_tokens_and_costs length_tokenizer (\<lambda>xs. xs) conv_two_turns costs_o3 ''detailed''
        = Some (Inr (Detailed_result r)) \<and>
       turns_details r = processed_turns st_two_turns \<and>
       total_cost r = conversation_total_cost st_two_turns \<and>
       total_input_tokens_across_turns r = conversation_total_input_tokens st_two_turns \<and>
       total_output_tokens_for_all_assistant_msgs r = conversation_total_output_tokens st_two_turns \<and>
       assistant_messages_count r = assistant_message_count_in_convo st_two_turns \<and>
       real_turns_count r = count_real_turns m_two_turns [''A'', ''B'', ''C'', ''D'']"
proof (rule analyze_detailed_eval)
  show "conv_mapping conv_two_turns = Some m_two_turns" by (simp add: conv_two_turns_def)
  show "m_two_turns \<noteq> []" by (simp add: m_two_turns_def)
  show "get_message_chronological_order (\<lambda>xs. xs) m_two_turns = Some [''A'', ''B'', ''C'', ''D'']"
    by (rule order_two_turns)
  show "[''A'', ''B'', ''C'', ''D''] \<noteq> []" by simp
  show "''detailed'' \<noteq> ''simple''" by simp
  show "detailed_loop length_tokenizer m_two_turns costs_o3 initial_state [''A'', ''B'', ''C'', ''D''] =
     Inr st_two_turns" by (rule loop_two_turns)
qed

lemma analyze_simple_eval:
  assumes "conv_mapping conv = Some m" and "m \<noteq> []"
    and "get_message_chronological_order set_order m = Some ids" and "ids \<noteq> []"
  shows "\<exists>r. analyze_conversation_tokens_and_costs gt set_order conv c ''simple'' = Some (Inr (Simple_result r)) \<and>
           r = simple_mode gt
                 \<lparr>result_title = (case title conv of None \<Rightarrow> ''N/A'' | Some t \<Rightarrow> t),
                  create_time_ts = create_time conv, update_time_ts = update_time conv, mode = ''simple''\<rparr>
                 m c ids (count_real_turns m ids)"
  using assms
  by (simp add: analyze_conversation_tokens_and_costs_def Let_def)

text \<open>
  C1.  In detailed mode the records are those of the assistant messages of the linearized
  sequence, in order, and the \<open>input_tokens\<close> of a record is the sum of the history
  token counts (extracted with \<open>count_thoughts\<close> false) of all the entries before its
  message, whatever their role, without the message itself.
\<close>

theorem input_tokens_are_prior_history:
  assumes "analyze_conversation_tokens_and_costs gt set_order conv c md = Some (Inr (Detailed_result r))"
    and "conv_mapping conv = Some m"
    and "get_message_chronological_order set_order m = Some ids"
  shows "map (\<lambda>t. (assistant_message_id t, input_tokens t)) (turns_details r) =
           map (\<lambda>i. (fst (messages_of m ids ! i),
                      sum_list (map (history_tokens gt) (take i (messages_of m ids)))))
             (filter (\<lambda>i. is_assistant (messages_of m ids ! i)) [0..<length (messages_of m ids)])"
proof -
  from assms(1) obtain m' ids' st where
    "conv_mapping conv = Some m'" "get_message_chronological_order set_order m' = Some ids'"
    and run: "detailed_loop gt m' c initial_state ids' = Inr st"
    and td: "turns_details r = processed_turns st"
    by (rule analyze_detailed_run)
  with assms(2,3) have "m' = m" "ids' = ids" by simp_all
  with run have "positions_ok gt (messages_of m ids) st"
    using detailed_loop_positions by blast
  then have "map turn_key (processed_turns st) =
        map (expected_key gt (messages_of m ids))
          (filter (\<lambda>i. is_assistant (messages_of m ids ! i)) [0..<length (messages_of m ids)])"
    by (simp add: positions_ok_def)
  then have "map (\<lambda>(a, b, c). (a, c)) (map turn_key (processed_turns st)) =
        map (\<lambda>(a, b, c). (a, c)) (map (expected_key gt (messages_of m ids))
          (filter (\<lambda>i. is_assistant (messages_of m ids ! i)) [0..<length (messages_of m ids)]))"
    by simp
  then show ?thesis
    by (simp add: td turn_key_def expected_key_def comp_def)
qed

theorem input_tokens_are_prior_history_witness:
  "\<exists>r. analyze_conversation_tokens_and_costs length_tokenizer (\<lambda>xs. xs) conv_two_turns costs_o3 ''detailed''
        = Some (Inr (Detailed_result r)) \<and>
       map (\<lambda>t. (assistant_message_id t, input_tokens t)) (turns_details r) = [(''B'', 2), (''D'', 2 + 5 + 4)]"
proof -
  from analyze_two_turns obtain r where
    r: "analyze_conversation_tokens_and_costs length_tokenizer (\<lambda>xs. xs) conv_two_turns costs_o3 ''detailed''
        = Some (Inr (Detailed_result r))"
    by blast
  have m: "conv_mapping conv_two_turns = Some m_two_turns"
    by (simp add: conv_two_turns_def)
  have len: "length entries_two_turns = 4"
    by (simp add: entries_two_turns_def)
  have idx: "filter (\<lambda>i. is_assistant (entries_two_turns ! i)) [0..<4] = [1, 3]"
    using roles_two_turns by (simp add: upt_conv_Cons entries_two_turns_def)
  have "map (\<lambda>t. (assistant_message_id t, input_tokens t)) (turns_details r) = [(''B'', 2), (''D'', 2 + 5 + 4)]"
    using input_tokens_are_prior_history [OF r m order_two_turns] history_two_turns ids_two_turns
    by (simp add: messages_two_turns len idx) (simp add: entries_two_turns_def numeral_3_eq_3)
  with r show ?thesis by (intro exI conjI)
qed

text \<open>
  C2.  In detailed mode the input cost of every record is its input tokens per million
  times the input rate of the model resolved for its message when the record's
  \<open>turn_index\<close> is 0, and times half that rate when it is greater; and the
  \<open>turn_index\<close> of a record is the number of entries with \<open>end_turn\<close> before its
  message.  For two turns of one assistant message each, at the same rates, the second rate
  is half the first: the example of the witness.
\<close>

theorem input_rate_halved_after_first_turn:
  assumes "analyze_conversation_tokens_and_costs gt set_order conv c md = Some (Inr (Detailed_result r))"
    and "conv_mapping conv = Some m"
    and "get_message_chronological_order set_order m = Some ids"
  shows "(\<forall>t \<in> set (turns_details r). rate_ok m c t) \<and>
         map (\<lambda>t. (assistant_message_id t, turn_index t)) (turns_details r) =
           map (\<lambda>i. (fst (messages_of m ids ! i),
                      length (filter ends_turn (take i (messages_of m ids)))))
             (filter (\<lambda>i. is_assistant (messages_of m ids ! i)) [0..<length (messages_of m ids)])"
proof -
  from assms(1) obtain m' ids' st where
    "conv_mapping conv = Some m'" "get_message_chronological_order set_order m' = Some ids'"
    and run: "detailed_loop gt m' c initial_state ids' = Inr st"
    and td: "turns_details r = processed_turns st"
    by (rule analyze_detailed_run)
  with assms(2,3) have eq: "m' = m" "ids' = ids" by simp_all
  have "list_all (rate_ok m c) (processed_turns st)"
    using detailed_loop_rates run eq by blast
  then have 1: "\<forall>t \<in> set (turns_details r). rate_ok m c t"
    by (simp add: td list_all_iff)
  have "positions_ok gt (messages_of m ids) st"
    using detailed_loop_positions run eq by blast
  then have "map (\<lambda>(a, b, c). (a, b)) (map turn_key (processed_turns st)) =
        map (\<lambda>(a, b, c). (a, b)) (map (expected_key gt (messages_of m ids))
          (filter (\<lambda>i. is_assistant (messages_of m ids ! i)) [0..<length (messages_of m ids)]))"
    by (simp add: positions_ok_def)
  then have 2: "map (\<lambda>t. (assistant_message_id t, turn_index t)) (turns_details r) =
           map (\<lambda>i. (fst (messages_of m ids ! i),
                      length (filter ends_turn (take i (messages_of m ids)))))
             (filter (\<lambda>i. is_assistant (messages_of m ids ! i)) [0..<length (messages_of m ids)])"
    by (simp add: td turn_key_def expected_key_def comp_def)
  from 1 2 show ?thesis by (rule conjI)
qed

theorem input_rate_halved_after_first_turn_witness:
  "\<exists>r t1 t2. analyze_conversation_tokens_and_costs length_tokenizer (\<lambda>xs. xs) conv_two_turns costs_o3 ''detailed''
        = Some (Inr (Detailed_result r)) \<and>
       turns_details r = [t1, t2] \<and> rate_ok m_two_turns costs_o3 t1 \<and> rate_ok m_two_turns costs_o3 t2 \<and>
       turn_index t1 = 0 \<and> turn_index t2 = 1 \<and>
       input_cost t1 = input_tokens t1 / 1000000 * 10 \<and>
       input_cost t2 = input_tokens t2 / 1000000 * (10 / 2)"
proof -
  from analyze_two_turns obtain r where
    r: "analyze_conversation_tokens_and_costs length_tokenizer (\<lambda>xs. xs) conv_two_turns costs_o3 ''detailed''
        = Some (Inr (Detailed_result r))"
    and td: "turns_details r = processed_turns st_two_turns"
    by blast
  have m: "conv_mapping conv_two_turns = Some m_two_turns"
    by (simp add: conv_two_turns_def)
  obtain t1 t2 where ts: "processed_turns st_two_turns = [t1, t2]"
    and f: "turn_index t1 = 0" "turn_index t2 = 1"
       "input_cost t1 = input_tokens t1 / 1000000 * 10"
       "input_cost t2 = input_tokens t2 / 1000000 * (10 / 2)"
    by (simp add: st_two_turns_def)
  have "rate_ok m_two_turns costs_o3 t1 \<and> rate_ok m_two_turns costs_o3 t2"
    using input_rate_halved_after_first_turn [OF r m order_two_turns] by (simp add: td ts)
  with r td ts f show ?thesis by (intro exI conjI) simp_all
qed

text \<open>
  C4.  When the loop of detailed mode has processed the whole sequence, its final
  \<open>current_turn_index\<close> is the number of turns counted by \<open>count_real_turns\<close>, and that is
  the \<open>real_turns_count\<close> of the result in simple and in detailed mode.
\<close>

theorem real_turns_equal_final_turn_index:
  assumes "conv_mapping conv = Some m"
    and "get_message_chronological_order set_order m = Some ids"
    and "detailed_loop gt m c initial_state ids = Inr st"
    and "analyze_conversation_tokens_and_costs gt set_order conv c md = Some (Inr res)"
    and "\<not> has_error res"
  shows "count_real_turns m ids = current_turn_index st \<and>
         numeric_field res ''real_turns_count'' = Some (of_nat (current_turn_index st))"
proof -
  have "positions_ok gt (messages_of m ids) st"
    using assms(3) by (rule detailed_loop_positions)
  then have 1: "count_real_turns m ids = current_turn_index st"
    by (simp add: positions_ok_def count_real_turns_messages)
  have "numeric_field res ''real_turns_count'' = Some (of_nat (count_real_turns m ids))"
  proof (cases res)
    case (Error_result e)
    with assms(5) show ?thesis by (simp add: has_error_def)
  next
    case (Simple_result r)
    with assms(4) obtain m' ids' where
      "conv_mapping conv = Some m'" "get_message_chronological_order set_order m' = Some ids'"
      "real_turns_count r = count_real_turns m' ids'"
      by (auto elim: analyze_simple_run)
    with assms(1,2) have "real_turns_count r = count_real_turns m ids" by simp
    with Simple_result show ?thesis by simp
  next
    case (Detailed_result r)
    with assms(4) obtain m' ids' where
      "conv_mapping conv = Some m'" "get_message_chronological_order set_order m' = Some ids'"
      "real_turns_count r = count_real_turns m' ids'"
      by (auto elim: analyze_detailed_run)
    with assms(1,2) have "real_turns_count r = count_real_turns m ids" by simp
    with Detailed_result show ?thesis by simp
  qed
  with 1 show ?thesis by simp
qed

theorem real_turns_equal_final_turn_index_witness:
  "\<exists>res. analyze_conversation_tokens_and_costs length_tokenizer (\<lambda>xs. xs) conv_two_turns costs_o3 ''simple''
        = Some (Inr res) \<and> \<not> has_error res \<and>
       detailed_loop length_tokenizer m_two_turns costs_o3 initial_state [''A'', ''B'', ''C'', ''D'']
         = Inr st_two_turns \<and>
       count_real_turns m_two_turns [''A'', ''B'', ''C'', ''D''] = 2 \<and>
       current_turn_index st_two_turns = 2 \<and>
       numeric_field res ''real_turns_count'' = Some 2"
proof -
  have m: "conv_mapping conv_two_turns = Some m_two_turns"
    by (simp add: conv_two_turns_def)
  have ne: "m_two_turns \<noteq> []" by (simp add: m_two_turns_def)
  from analyze_simple_eval [OF m ne order_two_turns, of length_tokenizer costs_o3]
  obtain r where
    r: "analyze_conversation_tokens_and_costs length_tokenizer (\<lambda>xs. xs) conv_two_turns costs_o3 ''simple''
        = Some (Inr (Simple_result r))"
    by auto
  have e: "\<not> has_error (Simple_result r)" by (simp add: has_error_def)
  have i: "current_turn_index st_two_turns = 2" by (simp add: st_two_turns_def)
  show ?thesis
    using real_turns_equal_final_turn_index [OF m order_two_turns loop_two_turns r e] r e loop_two_turns i
    by (intro exI [of _ "Simple_result r"]) simp
qed

text \<open>
  C9.  For a conversation with a single assistant message, the
  \<open>simple_total_assistant_tokens\<close> of simple mode is the \<open>output_tokens\<close> that detailed
  mode records for that message; both count thoughts.
\<close>

theorem simple_detailed_output_agreement:
  assumes "analyze_conversation_tokens_and_costs gt set_order conv c ''simple'' = Some (Inr (Simple_result s))"
    and "analyze_conversation_tokens_and_costs gt set_order conv c md = Some (Inr (Detailed_result d))"
    and "turns_details d = [t]"
  shows "simple_total_assistant_tokens s = output_tokens t"
proof -
  from assms(2) obtain m ids st where
    m: "conv_mapping conv = Some m" and ids: "get_message_chronological_order set_order m = Some ids"
    and run: "detailed_loop gt m c initial_state ids = Inr st"
    and td: "turns_details d = processed_turns st"
    by (rule analyze_detailed_run)
  from assms(1) obtain m' ids' where
    "conv_mapping conv = Some m'" "get_message_chronological_order set_order m' = Some ids'"
    and s: "simple_total_assistant_tokens s =
       simple_assistant_tokens (foldl (simple_step gt m')
         \<lparr>simple_user_tokens = 0, simple_assistant_tokens = 0, simple_system_tokens = 0\<rparr> ids')"
    by (rule analyze_simple_run)
  with m ids have eq: "m' = m" "ids' = ids" by simp_all
  have "map output_tokens (processed_turns st) =
          map (output_tokens_of gt) (filter is_assistant (messages_of m ids))"
    using run by (rule detailed_loop_outputs)
  moreover have "processed_turns st = [t]"
    using td assms(3) by simp
  ultimately have "map (output_tokens_of gt) (filter is_assistant (messages_of m ids)) = [output_tokens t]"
    by simp
  then show ?thesis
    by (simp add: s eq simple_loop_assistant_tokens)
qed

theorem simple_detailed_output_agreement_witness:
  "\<exists>s d t. analyze_conversation_tokens_and_costs length_tokenizer (\<lambda>xs. xs) conv_one_turn costs_o3 ''simple''
               = Some (Inr (Simple_result s)) \<and>
            analyze_conversation_tokens_and_costs length_tokenizer (\<lambda>xs. xs) conv_one_turn costs_o3 ''detailed''
               = Some (Inr (Detailed_result d)) \<and>
            turns_details d = [t] \<and>
            simple_total_assistant_tokens s = output_tokens t \<and> output_tokens t = 86 / 5"
proof -
  have m: "conv_mapping conv_one_turn = Some m_one_turn"
    by (simp add: conv_one_turn_def)
  have ne: "m_one_turn \<noteq> []" by (simp add: m_one_turn_def)
  from analyze_simple_eval [OF m ne order_one_turn, of length_tokenizer costs_o3]
  obtain s where
    s: "analyze_conversation_tokens_and_costs length_tokenizer (\<lambda>xs. xs) conv_one_turn costs_o3 ''simple''
        = Some (Inr (Simple_result s))"
    by auto
  from analyze_detailed_eval [OF m ne order_one_turn _ _ loop_one_turn, of "''detailed''"]
  obtain d where
    d: "analyze_conversation_tokens_and_costs length_tokenizer (\<lambda>xs. xs) conv_one_turn costs_o3 ''detailed''
        = Some (Inr (Detailed_result d))"
    and td: "turns_details d = processed_turns st_one_turn"
    by auto
  obtain t where t: "processed_turns st_one_turn = [t]" and o: "output_tokens t = 86 / 5"
    by (simp add: st_one_turn_def)
  have "simple_total_assistant_tokens s = output_tokens t"
    using simple_detailed_output_agreement [OF s d] td t by simp
  with s d td t o show ?thesis by (intro exI conjI) simp_all
qed

text \<open>
  C10.  A result of detailed mode agrees with its records: \<open>total_cost\<close> is the sum of
  their \<open>turn_total_cost\<close>, \<open>total_input_tokens_across_turns\<close> the sum of their
  \<open>input_tokens\<close>, \<open>total_output_tokens_for_all_assistant_msgs\<close> the sum of their
  \<open>output_tokens\<close>, and \<open>assistant_messages_count\<close> their number.
\<close>

theorem detailed_result_consistent:
  assumes "analyze_conversation_tokens_and_costs gt set_order conv c md = Some (Inr (Detailed_result r))"
  shows "total_cost r = sum_list (map turn_total_cost (turns_details r)) \<and>
         total_input_tokens_across_turns r = sum_list (map input_tokens (turns_details r)) \<and>
         total_output_tokens_for_all_assistant_msgs r = sum_list (map output_tokens (turns_details r)) \<and>
         assistant_messages_count r = length (turns_details r)"
proof -
  from assms obtain m ids st where
    run: "detailed_loop gt m c initial_state ids = Inr st"
    and f: "turns_details r = processed_turns st"
      "total_cost r = conversation_total_cost st"
      "total_input_tokens_across_turns r = conversation_total_input_tokens st"
      "total_output_tokens_for_all_assistant_msgs r = conversation_total_output_tokens st"
      "assistant_messages_count r = assistant_message_count_in_convo st"
    by (rule analyze_detailed_run)
  have "totals_ok st" using run by (rule detailed_loop_totals)
  then show ?thesis by (simp add: totals_ok_def f)
qed

theorem detailed_result_consistent_witness:
  "\<exists>r. analyze_conversation_tokens_and_costs length_tokenizer (\<lambda>xs. xs) conv_two_turns costs_o3 ''detailed''
        = Some (Inr (Detailed_result r)) \<and>
       total_cost r = sum_list (map turn_total_cost (turns_details r)) \<and>
       total_input_tokens_across_turns r = sum_list (map input_tokens (turns_details r)) \<and>
       total_output_tokens_for_all_assistant_msgs r = sum_list (map output_tokens (turns_details r)) \<and>
       assistant_messages_count r = length (turns_details r) \<and>
       length (turns_details r) = 2 \<and> total_input_tokens_across_turns r = 13"
proof -
  from analyze_two_turns obtain r where
    r: "analyze_conversation_tokens_and_costs length_tokenizer (\<lambda>xs. xs) conv_two_turns costs_o3 ''detailed''
        = Some (Inr (Detailed_result r))"
    and td: "turns_details r = processed_turns st_two_turns"
    and ti: "total_input_tokens_across_turns r = conversation_total_input_tokens st_two_turns"
    by blast
  have "length (turns_details r) = 2 \<and> total_input_tokens_across_turns r = 13"
    by (simp add: td ti st_two_turns_def)
  with detailed_result_consistent [OF r] r show ?thesis by (intro exI [of _ r]) simp
qed

section \<open>Errors\<close>

lemma valid_results_drop_error:
  "valid_results (rs @ Error_result e # rs') = valid_results (rs @ rs')"
  by (simp add: valid_results_def has_error_def)

lemma report_summary_drop_error:
  "report_summary cm (rs @ Error_result e # rs') = report_summary cm (rs @ rs')"
  by (simp add: report_summary_def valid_results_drop_error)

text \<open>
  C7.  For a conversation whose mapping is missing or empty, or whose linearized sequence
  is empty, the analysis returns a result with a non-empty \<open>error\<close> string; such a result
  is kept in the list of errors of the report, is not among the valid results, and
  changes nothing in the summary wherever it stands in the list of results.
\<close>

theorem structural_errors_fail_softly:
  assumes "conv_mapping conv = None \<or> conv_mapping conv = Some [] \<or>
           (\<exists>m. conv_mapping conv = Some m \<and> get_message_chronological_order set_order m = Some [])"
  shows "\<exists>e. analyze_conversation_tokens_and_costs gt set_order conv c md = Some (Inr (Error_result e)) \<and>
              error e \<noteq> [] \<and>
              (\<forall>cm rs rs'. report_summary cm (rs @ Error_result e # rs') = report_summary cm (rs @ rs') \<and>
                            valid_results (rs @ Error_result e # rs') = valid_results (rs @ rs') \<and>
                            Error_result e \<in> set (error_conversations (rs @ Error_result e # rs')))"
proof -
  have "\<exists>e. analyze_conversation_tokens_and_costs gt set_order conv c md = Some (Inr (Error_result e)) \<and>
              error e \<noteq> []"
    using assms
    by (auto simp add: analyze_conversation_tokens_and_costs_def Let_def result_base.extend_def)
  then obtain e where
    e: "analyze_conversation_tokens_and_costs gt set_order conv c md = Some (Inr (Error_result e))"
       "error e \<noteq> []"
    by blast
  have "Error_result e \<in> set (error_conversations (rs @ Error_result e # rs'))" for rs rs'
    by (simp add: error_conversations_def has_error_def)
  with e show ?thesis
    by (intro exI [of _ e]) (simp add: report_summary_drop_error valid_results_drop_error)
qed

theorem structural_errors_fail_softly_witness:
  "get_message_chronological_order (\<lambda>xs. xs) m_bare_root = Some [] \<and>
   (\<exists>e. analyze_conversation_tokens_and_costs length_tokenizer (\<lambda>xs. xs) conv_bare_root costs_o3 ''detailed''
           = Some (Inr (Error_result e)) \<and>
         error e \<noteq> [] \<and>
         report_summary ''detailed'' ([] @ Error_result e # []) = report_summary ''detailed'' ([] @ []))"
proof -
  have h: "conv_mapping conv_bare_root = None \<or> conv_mapping conv_bare_root = Some [] \<or>
           (\<exists>m. conv_mapping conv_bare_root = Some m \<and>
                get_message_chronological_order (\<lambda>xs. xs) m = Some [])"
    using order_bare_root by (simp add: conv_bare_root_def)
  from structural_errors_fail_softly [OF h, of length_tokenizer costs_o3 "''detailed''"]
  show ?thesis using order_bare_root by blast
qed

text \<open>
  C8.  The claim is that a cost table with an entry that lacks a rate key is recovered
  from in both modes, by charging 0 and marking the result.  Simple mode tests for the
  two keys and does so.  Detailed mode reads them by subscript without a test, and the
  \<open>KeyError\<close> leaves the analysis.
\<close>

theorem detailed_mode_raises_on_incomplete_rates:
  "analyze_conversation_tokens_and_costs length_tokenizer (\<lambda>xs. xs) conv_two_turns costs_incomplete ''detailed''
     = Some (Inl (KeyError ''output_cost_per_million_tokens'')) \<and>
   (\<exists>r. analyze_conversation_tokens_and_costs length_tokenizer (\<lambda>xs. xs) conv_two_turns costs_incomplete ''simple''
           = Some (Inr (Simple_result r)) \<and>
         simple_total_cost r = 0 \<and> simple_cost_model_key r = ''o3 (rates not found/incomplete)'')"
proof -
  have m: "conv_mapping conv_two_turns = Some m_two_turns"
    by (simp add: conv_two_turns_def)
  have ne: "m_two_turns \<noteq> []" by (simp add: m_two_turns_def)
  have 1: "analyze_conversation_tokens_and_costs length_tokenizer (\<lambda>xs. xs) conv_two_turns costs_incomplete ''detailed''
     = Some (Inl (KeyError ''output_cost_per_million_tokens''))"
    by (simp add: analyze_conversation_tokens_and_costs_def Let_def m ne order_two_turns loop_incomplete
          del: detailed_loop.simps)
  from analyze_simple_eval [OF m ne order_two_turns, of length_tokenizer costs_incomplete]
  obtain r where
    r: "analyze_conversation_tokens_and_costs length_tokenizer (\<lambda>xs. xs) conv_two_turns costs_incomplete ''simple''
        = Some (Inr (Simple_result r))"
    and d: "r = simple_mode length_tokenizer
                 \<lparr>result_title = (case title conv_two_turns of None \<Rightarrow> ''N/A'' | Some t \<Rightarrow> t),
                  create_time_ts = create_time conv_two_turns, update_time_ts = update_time conv_two_turns,
                  mode = ''simple''\<rparr>
                 m_two_turns costs_incomplete [''A'', ''B'', ''C'', ''D'']
                 (count_real_turns m_two_turns [''A'', ''B'', ''C'', ''D''])"
    by auto
  have "simple_total_cost r = 0 \<and> simple_cost_model_key r = ''o3 (rates not found/incomplete)''"
    by (simp add: d simple_mode_def simple_calc_model_rates_def costs_incomplete_def rates_truthy_def
          Let_def split: prod.splits)
  with 1 r show ?thesis by blast
qed

end
